theory Spec2Isabelle
  imports Main "HOL-Library.Word" "HOL-Library.Sublist"
begin

unbundle bit_operations_syntax

section \<open>A SOCKS5 proxy session (toy-socks5)\<close>

text \<open>
  The repository holds two versions of the same Go program: \<^verbatim>\<open>src/server.go\<close> and the
  later \<^verbatim>\<open>src/unnamed/part_001\<close>. Both are embedded. A definition that exists in both
  files with different bodies carries the suffix \<open>_sg\<close> (server.go) or \<open>_p1\<close> (part_001);
  a definition whose body is the same in both files has no suffix.
\<close>

subsection \<open>Constants\<close>

type_synonym byte = "8 word"

definition socksVersion :: byte where "socksVersion = 5"

definition noAuth :: byte where "noAuth = 0x00"

definition connect :: byte where "connect = 0x01"
definition bind_cmd :: byte where "bind_cmd = 0x02"
definition udpAssociate :: byte where "udpAssociate = 0x03"

definition ipv4 :: byte where "ipv4 = 0x01"
definition domainName :: byte where "domainName = 0x03"
definition ipv6 :: byte where "ipv6 = 0x04"

definition succeeded :: byte where "succeeded = 0x00"
definition generalFailure :: byte where "generalFailure = 0x01"
definition connectionNotAllowed :: byte where "connectionNotAllowed = 0x02"
definition networkUnreachable :: byte where "networkUnreachable = 0x03"
definition hostUnreachable :: byte where "hostUnreachable = 0x04"
definition connectionRefused :: byte where "connectionRefused = 0x05"
definition ttlExpired :: byte where "ttlExpired = 0x06"
definition commandNotSupported :: byte where "commandNotSupported = 0x07"
definition addressTypeNotSupported :: byte where "addressTypeNotSupported = 0x08"

lemmas socks_consts =
  socksVersion_def noAuth_def connect_def bind_cmd_def udpAssociate_def
  ipv4_def domainName_def ipv6_def
  succeeded_def generalFailure_def connectionNotAllowed_def networkUnreachable_def
  hostUnreachable_def connectionRefused_def ttlExpired_def commandNotSupported_def
  addressTypeNotSupported_def

subsection \<open>Connections, the session record and the environment\<close>

text \<open>
  A \<open>net.Conn\<close> value is a connection object or nil, so the fields \<open>conn\<close> and \<open>remote\<close>
  are options. A connection object holds the bytes its peer has sent and that have not
  been read yet, whether \<open>Close\<close> has been called on it, and the local address that
  \<open>LocalAddr\<close> reports (a \<open>net.IP\<close> byte slice and an \<open>int\<close> port).
\<close>

record tcp_conn =
  input :: "byte list"
  closed :: bool
  localIP :: "byte list"
  localPort :: int

text \<open>
  What a session does to the outside is recorded, in order, in the field \<open>trace\<close>:
  a payload that a \<open>Write\<close> on the client connection delivered, the closing of the
  client connection, the address handed to \<open>net.Dial\<close>, the call of \<open>exchange\<close>, and the
  closing of the outbound connection.
\<close>

datatype event =
    Sent "byte list"
  | ClientClosed
  | Dialed string
  | Relayed
  | RemoteClosed

record SocksProxy =
  version :: byte
  conn :: "tcp_conn option"
  command :: byte
  addressType :: byte
  reply :: byte
  IP :: "byte list"
  FQDN :: "byte list"
  port :: "16 word"
  remote :: "tcp_conn option"
  methods :: "byte list"
  trace :: "event list"

text \<open>
  Read off a trace: the addresses dialed, and the reply frames sent. A payload is taken
  as a reply frame when it starts with the four header bytes of a reply: the version 5,
  a reply code, the reserved byte 0 and an address type. The address and port that
  follow are not looked at here (the failure reply of server.go carries one address
  byte). The two-byte payload that answers the greeting is not a reply frame.
\<close>

definition replyHeader :: "byte list \<Rightarrow> bool" where
  "replyHeader p = (4 \<le> length p \<and> p ! 0 = socksVersion \<and> p ! 2 = 0)"

fun dials :: "event list \<Rightarrow> string list" where
  "dials [] = []"
| "dials (Dialed a # es) = a # dials es"
| "dials (ev # es) = dials es"

fun replyFrames :: "event list \<Rightarrow> byte list list" where
  "replyFrames [] = []"
| "replyFrames (Sent p # es) = (if replyHeader p then p # replyFrames es else replyFrames es)"
| "replyFrames (ev # es) = replyFrames es"

text \<open>
  The Go runtime and standard library that the program calls: \<open>net.LookupIP\<close> and
  \<open>net.Dial\<close> return either an error (its message) or a result; \<open>ipString\<close> is
  \<open>net.IP.String\<close>, \<open>addrString\<close> is \<open>netip.Addr.String\<close>; \<open>copyError\<close> is the first
  non-nil error that the two \<open>io.Copy\<close> calls of server.go's \<open>exchange\<close> deliver, if any.
\<close>

record env =
  lookupIP :: "byte list \<Rightarrow> string + byte list list"
  dial :: "string \<Rightarrow> string + tcp_conn"
  ipString :: "byte list \<Rightarrow> string"
  addrString :: "byte list \<Rightarrow> string"
  copyError :: "string option"

text \<open>
  A Go function either returns (a value and the session as it left it) or panics. An
  unrecovered panic runs the deferred calls and then ends the whole process.
\<close>

datatype panic =
    NilConn
  | NilRemote_LocalAddr
  | NilRemote_RemoteAddr
  | IndexOutOfRange

datatype 'a outcome = Ok 'a SocksProxy | Panic panic SocksProxy

definition andThen :: "'a outcome \<Rightarrow> ('a \<Rightarrow> SocksProxy \<Rightarrow> 'b outcome) \<Rightarrow> 'b outcome" where
  "andThen r f = (case r of Ok x s \<Rightarrow> f x s | Panic p s \<Rightarrow> Panic p s)"

fun final :: "'a outcome \<Rightarrow> SocksProxy" where
  "final (Ok x s) = s"
| "final (Panic p s) = s"

fun panicked :: "'a outcome \<Rightarrow> panic option" where
  "panicked (Ok x s) = None"
| "panicked (Panic p s) = Some p"

text \<open>
  \<open>ends Q E r\<close>: the outcome \<open>r\<close> is a return whose value and session satisfy \<open>Q\<close>, or a
  panic whose kind and session satisfy \<open>E\<close>.
\<close>

definition ends ::
  "('a \<Rightarrow> SocksProxy \<Rightarrow> bool) \<Rightarrow> (panic \<Rightarrow> SocksProxy \<Rightarrow> bool) \<Rightarrow> 'a outcome \<Rightarrow> bool" where
  "ends Q E r = (case r of Ok x s \<Rightarrow> Q x s | Panic p s \<Rightarrow> E p s)"

definition never :: "panic \<Rightarrow> SocksProxy \<Rightarrow> bool" where
  "never p s = False"

text \<open>The errors that part_001 builds with \<open>fmt.Errorf\<close> (server.go: \<open>errors.New\<close>).\<close>

datatype error =
    InvalidVersion byte
  | InvalidNMethod byte
  | InvalidAddressType byte
  | ClosedEarly
  | DialFailed string string
  | UnsupportedCommand
  | UnsupportedCommandNo byte
  | ExchangeError string

subsection \<open>Reading, writing and closing the client connection\<close>

text \<open>
  \<open>s.conn.Read(buf)\<close>: a method call on a nil interface panics; on a closed connection
  the call fails and leaves \<open>buf\<close> as it was; otherwise the bytes that have arrived, at most
  \<open>len(buf)\<close> of them, overwrite the front of \<open>buf\<close> (none at end of stream). The
  program never looks at the count or the error that \<open>Read\<close> returns. The model takes all
  bytes the client sends as having arrived when they are read.
\<close>

definition connRead :: "byte list \<Rightarrow> SocksProxy \<Rightarrow> (byte list) outcome" where
  "connRead buf s =
     (case conn s of
        None \<Rightarrow> Panic NilConn s
      | Some c \<Rightarrow>
          if closed c then Ok buf s
          else (let n = min (length buf) (length (input c))
                in Ok (take n (input c) @ drop n buf)
                      (s\<lparr>conn := Some (c\<lparr>input := drop n (input c)\<rparr>)\<rparr>)))"

text \<open>
  \<open>s.conn.Write(payload)\<close>: panics on nil, fails on a closed connection (the value
  returned is whether the write succeeded), and otherwise delivers the payload.
  A \<open>Write\<close> that fails on a connection still open on this side, because the peer has
  gone, is not part of the model.
\<close>

definition connWrite :: "byte list \<Rightarrow> SocksProxy \<Rightarrow> bool outcome" where
  "connWrite payload s =
     (case conn s of
        None \<Rightarrow> Panic NilConn s
      | Some c \<Rightarrow>
          if closed c then Ok False s
          else Ok True (s\<lparr>trace := trace s @ [Sent payload]\<rparr>))"

text \<open>\<open>c.Close()\<close> on a connection object: a second call fails and changes nothing.\<close>

definition connClose :: "tcp_conn \<Rightarrow> tcp_conn" where
  "connClose c = c\<lparr>closed := True\<rparr>"

subsection \<open>Strings\<close>

text \<open>\<open>strings.Contains(s, substr)\<close>.\<close>

fun Contains :: "string \<Rightarrow> string \<Rightarrow> bool" where
  "Contains [] substr = (substr = [])"
| "Contains (c # cs) substr = (prefix substr (c # cs) \<or> Contains cs substr)"

text \<open>The verb \<open>%d\<close> of \<open>fmt.Sprintf\<close> on an unsigned number.\<close>

definition digit :: "nat \<Rightarrow> char" where
  "digit n = ''0123456789'' ! n"

function decimal :: "nat \<Rightarrow> string" where
  "decimal n = (if n < 10 then [digit n] else decimal (n div 10) @ [digit (n mod 10)])"
  by pat_completeness auto
termination
  by (relation "measure (\<lambda>n. n)") auto

declare decimal.simps [simp del]

subsection \<open>Functions that are the same in both files\<close>

text \<open>
  \<open>getAvailableMethods\<close>: the loop \<open>for i := uint8(0); i < nmethod; i++\<close> reads one byte
  per round into the one-byte buffer \<open>m\<close> and stores \<open>m[0]\<close>; a read that delivers nothing
  leaves the byte of the round before in \<open>m\<close>.
\<close>

function getAvailableMethods_loop ::
  "byte \<Rightarrow> byte \<Rightarrow> byte list \<Rightarrow> byte list \<Rightarrow> SocksProxy \<Rightarrow> (byte list) outcome" where
  "getAvailableMethods_loop i nmethod m ms s =
     (if i < nmethod
      then (case connRead m s of
              Panic p s' \<Rightarrow> Panic p s'
            | Ok m' s' \<Rightarrow> getAvailableMethods_loop (i + 1) nmethod m' (ms[unat i := m' ! 0]) s')
      else Ok ms s)"
  by pat_completeness auto
termination
proof (relation "measure (\<lambda>(i, nmethod, m, ms, s). unat nmethod - unat i)")
  fix i nmethod :: byte and m ms :: "byte list" and s s' :: SocksProxy and m' :: "byte list"
  assume lt: "i < nmethod"
  then have "i \<noteq> - 1"
    by (metis word_order.extremum_strict)
  then have "1 + i \<noteq> 0"
    by (metis add.commute add_eq_0_iff)
  then have "unat (i + 1) = Suc (unat i)"
    by (simp add: unatSuc add.commute)
  moreover from lt have "unat i < unat nmethod"
    by (simp add: word_less_nat_alt)
  ultimately show "((i + 1, nmethod, m', ms[unat i := m' ! 0], s'), (i, nmethod, m, ms, s))
      \<in> measure (\<lambda>(i, nmethod, m, ms, s). unat nmethod - unat i)"
    by simp
qed simp

declare getAvailableMethods_loop.simps [simp del]

definition getAvailableMethods :: "byte \<Rightarrow> SocksProxy \<Rightarrow> (byte list) outcome" where
  "getAvailableMethods nmethod s =
     getAvailableMethods_loop 0 nmethod [0] (replicate (unat nmethod) 0) s"

text \<open>\<open>parsePort\<close>: two bytes, the first is the high byte.\<close>

definition parsePort :: "SocksProxy \<Rightarrow> unit outcome" where
  "parsePort s =
     andThen (connRead [0, 0] s) (\<lambda>buf s.
       Ok () (s\<lparr>port := push_bit 8 (ucast (buf ! 0)) OR ucast (buf ! 1)\<rparr>))"

definition NewProxy :: "tcp_conn \<Rightarrow> SocksProxy" where
  "NewProxy c =
     \<lparr>version = 5, conn = Some c, command = 0, addressType = 0, reply = 0, IP = [],
      FQDN = [], port = 0, remote = None, methods = [], trace = []\<rparr>"

text \<open>
  The relay is entered by a call of \<open>exchange\<close> on the two connections. Inside a session
  it is taken as one step. The call itself is recorded whatever the two connections are:
  \<open>exchange\<close> starts its two goroutines without looking at its arguments. With both
  connections present the call returns its result; a goroutine handed a nil connection
  panics in \<open>io.Copy\<close>, which ends the process. What the two goroutines do with two
  connections is modelled on its own below.
\<close>

definition exchange_call :: "error option \<Rightarrow> SocksProxy \<Rightarrow> (error option) outcome" where
  "exchange_call result s =
     (case conn s of
        None \<Rightarrow> Panic NilConn (s\<lparr>trace := trace s @ [Relayed]\<rparr>)
      | Some c \<Rightarrow>
          (case remote s of
             None \<Rightarrow> Panic NilConn (s\<lparr>trace := trace s @ [Relayed]\<rparr>)
           | Some r \<Rightarrow> Ok result (s\<lparr>trace := trace s @ [Relayed]\<rparr>)))"

subsection \<open>The session of part_001\<close>

text \<open>A \<open>netip.AddrPort\<close>: the bytes of the address (none for the zero \<open>Addr\<close>) and the port.\<close>

type_synonym AddrPort = "byte list \<times> 16 word"

definition IsValid :: "AddrPort \<Rightarrow> bool" where
  "IsValid ap = (length (fst ap) = 4 \<or> length (fst ap) = 16)"

text \<open>\<open>netip.MustParseAddrPort("0.0.0.0:0")\<close>.\<close>

definition zeroAddrPort :: AddrPort where
  "zeroAddrPort = ([0, 0, 0, 0], 0)"

text \<open>
  \<open>(*net.TCPAddr).AddrPort\<close>: \<open>netip.AddrFromSlice\<close> accepts a slice of 4 or 16 bytes and
  gives the zero \<open>Addr\<close> otherwise; the port is converted with \<open>uint16\<close>.
\<close>

definition TCPAddr_AddrPort :: "byte list \<Rightarrow> int \<Rightarrow> AddrPort" where
  "TCPAddr_AddrPort ip p =
     (if length ip = 4 \<or> length ip = 16 then ip else [], word_of_int p)"

definition closeConnection_p1 :: "SocksProxy \<Rightarrow> SocksProxy" where
  "closeConnection_p1 s =
     (case conn s of
        None \<Rightarrow> s
      | Some c \<Rightarrow> s\<lparr>conn := None, trace := trace s @ (if closed c then [] else [ClientClosed])\<rparr>)"

definition generateReply_p1 :: "SocksProxy \<Rightarrow> AddrPort \<Rightarrow> byte list" where
  "generateReply_p1 s addrPort =
     (if \<not> IsValid addrPort then []
      else [socksVersion, reply s, 0, addressType s] @ fst addrPort
           @ [ucast (drop_bit 8 (snd addrPort))] @ [ucast (snd addrPort AND 0xff)])"

definition generateSucceededReply_p1 :: "SocksProxy \<Rightarrow> AddrPort \<Rightarrow> byte list" where
  "generateSucceededReply_p1 s addrPort = generateReply_p1 s addrPort"

definition generateFailedReply_p1 :: "SocksProxy \<Rightarrow> AddrPort \<Rightarrow> byte list" where
  "generateFailedReply_p1 s addrPort = generateReply_p1 s addrPort"

definition closeConnectionWithError_p1 :: "byte \<Rightarrow> SocksProxy \<Rightarrow> unit outcome" where
  "closeConnectionWithError_p1 r s =
     (if conn s = None then Ok () s
      else (let s1 = s\<lparr>reply := r\<rparr>;
                payload = generateFailedReply_p1 s1 zeroAddrPort
            in andThen (connWrite payload s1) (\<lambda>_ s2. Ok () (closeConnection_p1 s2))))"

definition ensureVersion_p1 :: "byte \<Rightarrow> SocksProxy \<Rightarrow> unit outcome" where
  "ensureVersion_p1 v s =
     (if v \<noteq> socksVersion then closeConnectionWithError_p1 generalFailure s else Ok () s)"

definition ensureNMethod_p1 :: "byte \<Rightarrow> SocksProxy \<Rightarrow> unit outcome" where
  "ensureNMethod_p1 nmethod s =
     (if \<not> (1 \<le> nmethod \<and> nmethod \<le> 255) then closeConnectionWithError_p1 generalFailure s
      else Ok () s)"

definition parseAddress_p1 :: "SocksProxy \<Rightarrow> unit outcome" where
  "parseAddress_p1 s =
     (if addressType s = ipv4 then
        andThen (connRead (replicate 4 0) s) (\<lambda>buf s. Ok () (s\<lparr>IP := buf\<rparr>))
      else if addressType s = domainName then
        andThen (connRead [0] s) (\<lambda>domainLength s.
        andThen (connRead (replicate (unat (domainLength ! 0)) 0) s) (\<lambda>fqdn s.
          Ok () (s\<lparr>FQDN := fqdn\<rparr>)))
      else if addressType s = ipv6 then
        andThen (connRead (replicate 16 0) s) (\<lambda>buf s. Ok () (s\<lparr>IP := buf\<rparr>))
      else closeConnectionWithError_p1 addressTypeNotSupported s)"

definition handleGreetings_p1 :: "SocksProxy \<Rightarrow> (error option) outcome" where
  "handleGreetings_p1 s =
     andThen (connRead [0] s) (\<lambda>version s.
     andThen (connRead [0] s) (\<lambda>nmethod s.
       if conn s = None then Ok (Some (InvalidVersion (version ! 0))) s
       else
         andThen (ensureNMethod_p1 (nmethod ! 0) s) (\<lambda>_ s.
           if conn s = None then Ok (Some (InvalidNMethod (nmethod ! 0))) s
           else
             andThen (getAvailableMethods (nmethod ! 0) s) (\<lambda>ms s.
             andThen (connWrite [socksVersion, noAuth] (s\<lparr>methods := ms\<rparr>)) (\<lambda>_ s.
               Ok None s)))))"

definition handleRequestHeader_p1 :: "SocksProxy \<Rightarrow> (error option) outcome" where
  "handleRequestHeader_p1 s =
     andThen (connRead [0, 0, 0, 0] s) (\<lambda>header s.
     andThen (ensureVersion_p1 (header ! 0) s) (\<lambda>_ s.
       if conn s = None then Ok (Some (InvalidVersion (header ! 0))) s
       else
         andThen (parseAddress_p1 (s\<lparr>command := header ! 1, addressType := header ! 3\<rparr>))
           (\<lambda>_ s.
             if conn s = None then Ok (Some (InvalidAddressType (header ! 3))) s
             else andThen (parsePort s) (\<lambda>_ s. Ok None s))))"

definition constructRemoteAddress_p1 :: "env \<Rightarrow> SocksProxy \<Rightarrow> string outcome" where
  "constructRemoteAddress_p1 e s =
     (if addressType s = ipv4 \<or> addressType s = ipv6 then
        Ok (addrString e (IP s) @ '':'' @ decimal (unat (port s))) s
      else if addressType s = domainName then
        (let res = lookupIP e (FQDN s);
             ips = (case res of Inl err \<Rightarrow> [] | Inr l \<Rightarrow> l)
         in andThen (if isl res \<or> length ips = 0
                     then closeConnectionWithError_p1 generalFailure s else Ok () s)
              (\<lambda>_ s.
                 if length ips > 0
                 then Ok (ipString e (ips ! 0) @ '':'' @ decimal (unat (port s)))
                         (s\<lparr>addressType := ipv4\<rparr>)
                 else Ok [] s))
      else andThen (closeConnectionWithError_p1 addressTypeNotSupported s) (\<lambda>_ s. Ok [] s))"

definition handleCommandConnect_p1 ::
  "env \<Rightarrow> SocksProxy \<Rightarrow> (byte list \<times> error option) outcome" where
  "handleCommandConnect_p1 e s =
     andThen (constructRemoteAddress_p1 e s) (\<lambda>remoteAddress s.
       if conn s = None then Ok ([], Some ClosedEarly) s
       else
         (let s = s\<lparr>trace := trace s @ [Dialed remoteAddress]\<rparr>
          in case dial e remoteAddress of
               Inl msg \<Rightarrow>
                 andThen
                   (if Contains msg ''network is unreachable''
                    then closeConnectionWithError_p1 networkUnreachable (s\<lparr>remote := None\<rparr>)
                    else if Contains msg ''refused''
                    then closeConnectionWithError_p1 connectionRefused (s\<lparr>remote := None\<rparr>)
                    else closeConnectionWithError_p1 hostUnreachable (s\<lparr>remote := None\<rparr>))
                   (\<lambda>_ s. Ok ([], Some (DialFailed remoteAddress msg)) s)
             | Inr r \<Rightarrow>
                 (let s = s\<lparr>remote := Some r, reply := succeeded\<rparr>
                  in Ok (generateSucceededReply_p1 s (TCPAddr_AddrPort (localIP r) (localPort r)),
                         None) s)))"

definition handleRequestCommand_p1 ::
  "env \<Rightarrow> SocksProxy \<Rightarrow> (byte list \<times> error option) outcome" where
  "handleRequestCommand_p1 e s =
     (if command s = connect then
        andThen (handleCommandConnect_p1 e s) (\<lambda>(rep, err) s.
          case err of Some x \<Rightarrow> Ok ([], Some x) s | None \<Rightarrow> Ok (rep, None) s)
      else if command s = bind_cmd then
        andThen (closeConnectionWithError_p1 commandNotSupported s) (\<lambda>_ s.
          Ok ([], Some (UnsupportedCommandNo (command s))) s)
      else if command s = udpAssociate then
        andThen (closeConnectionWithError_p1 commandNotSupported s) (\<lambda>_ s.
          Ok ([], Some (UnsupportedCommandNo (command s))) s)
      else
        andThen (closeConnectionWithError_p1 commandNotSupported s) (\<lambda>_ s.
          Ok ([], Some (UnsupportedCommandNo (command s))) s))"

text \<open>\<open>exchange\<close> of part_001 always returns nil.\<close>

definition doReplyAction_p1 :: "SocksProxy \<Rightarrow> (error option) outcome" where
  "doReplyAction_p1 s =
     (if command s = connect then
        (if reply s = succeeded then
           andThen (exchange_call None s) (\<lambda>err s.
             case err of Some x \<Rightarrow> Ok (Some x) s | None \<Rightarrow> Ok None s)
         else Ok None s)
      else Ok None s)"

text \<open>
  \<open>handle\<close>: every \<open>return\<close> of the body, and a panic, runs the deferred
  \<open>server.closeConnection()\<close>.
\<close>

definition handle_body_p1 :: "env \<Rightarrow> tcp_conn \<Rightarrow> unit outcome" where
  "handle_body_p1 e c =
     andThen (handleGreetings_p1 (NewProxy c)) (\<lambda>err s.
       case err of Some x \<Rightarrow> Ok () s
       | None \<Rightarrow>
     andThen (handleRequestHeader_p1 s) (\<lambda>err s.
       case err of Some x \<Rightarrow> Ok () s
       | None \<Rightarrow>
     andThen (handleRequestCommand_p1 e s) (\<lambda>(payload, err) s.
       case err of Some x \<Rightarrow> Ok () s
       | None \<Rightarrow>
     andThen (if length payload > 0 then connWrite payload s else Ok True s) (\<lambda>written s.
       if \<not> written then Ok () s
       else
     andThen (doReplyAction_p1 s) (\<lambda>err s.
       case err of Some x \<Rightarrow> Ok () s
       | None \<Rightarrow>
           (case remote s of
              Some r \<Rightarrow> Ok () (s\<lparr>remote := Some (connClose r),
                                  trace := trace s @ [RemoteClosed]\<rparr>)
            | None \<Rightarrow> Ok () s))))))"

definition handle_p1 :: "env \<Rightarrow> tcp_conn \<Rightarrow> unit outcome" where
  "handle_p1 e c =
     (case handle_body_p1 e c of
        Ok u s \<Rightarrow> Ok () (closeConnection_p1 s)
      | Panic p s \<Rightarrow> Panic p (closeConnection_p1 s))"

subsection \<open>The session of server.go\<close>

text \<open>
  In server.go no function returns early after an error: \<open>closeConnectionWithError\<close>
  returns to its caller, which goes on. The connection is closed but never set to nil.
\<close>

definition closeConnection_sg :: "SocksProxy \<Rightarrow> unit outcome" where
  "closeConnection_sg s =
     (case conn s of
        None \<Rightarrow> Panic NilConn s
      | Some c \<Rightarrow>
          Ok () (s\<lparr>conn := Some (connClose c),
                   trace := trace s @ (if closed c then [] else [ClientClosed])\<rparr>))"

text \<open>\<open>uint8(port>>8)\<close> and \<open>uint8(port&0xff)\<close> on an \<open>int\<close> keep the low eight bits.\<close>

definition generateReply_sg :: "SocksProxy \<Rightarrow> byte list \<Rightarrow> int \<Rightarrow> byte list" where
  "generateReply_sg s ip p =
     [socksVersion, reply s, 0, addressType s] @ ip
     @ [word_of_int (drop_bit 8 p)] @ [word_of_int (p AND 0xff)]"

definition generateSucceededReply_sg :: "SocksProxy \<Rightarrow> byte list \<Rightarrow> int \<Rightarrow> byte list" where
  "generateSucceededReply_sg s ip p = generateReply_sg s ip p"

definition generateFailedReply_sg :: "SocksProxy \<Rightarrow> byte list \<Rightarrow> int \<Rightarrow> byte list" where
  "generateFailedReply_sg s ip p = generateReply_sg s ip p"

definition closeConnectionWithError_sg :: "byte \<Rightarrow> SocksProxy \<Rightarrow> unit outcome" where
  "closeConnectionWithError_sg err s =
     (let s1 = s\<lparr>reply := err\<rparr>;
          payload = generateFailedReply_sg s1 [0] 0
      in andThen (connWrite payload s1) (\<lambda>_ s2. closeConnection_sg s2))"

definition ensureVersion_sg :: "byte \<Rightarrow> SocksProxy \<Rightarrow> unit outcome" where
  "ensureVersion_sg v s =
     (if v \<noteq> socksVersion then closeConnectionWithError_sg generalFailure s else Ok () s)"

definition ensureNMethod_sg :: "byte \<Rightarrow> SocksProxy \<Rightarrow> unit outcome" where
  "ensureNMethod_sg nmethod s =
     (if \<not> (1 \<le> nmethod \<and> nmethod \<le> 255) then closeConnectionWithError_sg generalFailure s
      else Ok () s)"

definition parseAddress_sg :: "SocksProxy \<Rightarrow> unit outcome" where
  "parseAddress_sg s =
     (if addressType s = ipv4 then
        andThen (connRead (replicate 4 0) s) (\<lambda>buf s. Ok () (s\<lparr>IP := buf\<rparr>))
      else if addressType s = domainName then
        andThen (connRead [0] s) (\<lambda>domainLength s.
        andThen (connRead (replicate (unat (domainLength ! 0)) 0) s) (\<lambda>fqdn s.
          Ok () (s\<lparr>FQDN := fqdn\<rparr>)))
      else if addressType s = ipv6 then
        andThen (connRead (replicate 16 0) s) (\<lambda>buf s. Ok () (s\<lparr>IP := buf\<rparr>))
      else closeConnectionWithError_sg addressTypeNotSupported s)"

definition handleGreetings_sg :: "SocksProxy \<Rightarrow> unit outcome" where
  "handleGreetings_sg s =
     andThen (connRead [0] s) (\<lambda>version s.
     andThen (connRead [0] s) (\<lambda>nmethod s.
     andThen (ensureVersion_sg (version ! 0) s) (\<lambda>_ s.
     andThen (ensureNMethod_sg (nmethod ! 0) s) (\<lambda>_ s.
     andThen (getAvailableMethods (nmethod ! 0) s) (\<lambda>ms s.
     andThen (connWrite [socksVersion, noAuth] (s\<lparr>methods := ms\<rparr>)) (\<lambda>_ s.
       Ok () s))))))"

definition handleRequestHeader_sg :: "SocksProxy \<Rightarrow> unit outcome" where
  "handleRequestHeader_sg s =
     andThen (connRead [0, 0, 0, 0] s) (\<lambda>header s.
     andThen (ensureVersion_sg (header ! 0) s) (\<lambda>_ s.
     andThen (parseAddress_sg (s\<lparr>command := header ! 1, addressType := header ! 3\<rparr>)) (\<lambda>_ s.
       parsePort s)))"

text \<open>
  \<open>constructRemoteAddress\<close>: after a failed lookup the code goes on to \<open>ips[0]\<close>, which
  panics on an empty slice.
\<close>

definition constructRemoteAddress_sg :: "env \<Rightarrow> SocksProxy \<Rightarrow> string outcome" where
  "constructRemoteAddress_sg e s =
     (if addressType s = ipv4 \<or> addressType s = ipv6 then
        Ok (ipString e (IP s) @ '':'' @ decimal (unat (port s))) s
      else if addressType s = domainName then
        (let res = lookupIP e (FQDN s);
             ips = (case res of Inl err \<Rightarrow> [] | Inr l \<Rightarrow> l)
         in andThen (if isl res then closeConnectionWithError_sg generalFailure s else Ok () s)
              (\<lambda>_ s.
                 if length ips > 0
                 then Ok (ipString e (ips ! 0) @ '':'' @ decimal (unat (port s)))
                         (s\<lparr>addressType := ipv4\<rparr>)
                 else Panic IndexOutOfRange s))
      else andThen (closeConnectionWithError_sg addressTypeNotSupported s) (\<lambda>_ s. Ok [] s))"

text \<open>
  \<open>handleCommandConnect\<close>: the branch for a dial error does not return, so the call
  \<open>remote.LocalAddr()\<close> that follows is made on the nil \<open>remote\<close>.
\<close>

definition handleCommandConnect_sg :: "env \<Rightarrow> SocksProxy \<Rightarrow> (byte list) outcome" where
  "handleCommandConnect_sg e s =
     andThen (constructRemoteAddress_sg e s) (\<lambda>remoteAddress s.
       (let res = dial e remoteAddress;
            rem = (case res of Inl msg \<Rightarrow> None | Inr r \<Rightarrow> Some r);
            s = s\<lparr>remote := rem, trace := trace s @ [Dialed remoteAddress]\<rparr>
        in andThen
             (case res of
                Inl msg \<Rightarrow>
                  (if Contains msg ''network is unreachable''
                   then closeConnectionWithError_sg networkUnreachable s
                   else if Contains msg ''refused''
                   then closeConnectionWithError_sg connectionRefused s
                   else closeConnectionWithError_sg hostUnreachable s)
              | Inr r \<Rightarrow> Ok () s)
             (\<lambda>_ s.
                case rem of
                  None \<Rightarrow> Panic NilRemote_LocalAddr s
                | Some r \<Rightarrow>
                    (let s = s\<lparr>reply := succeeded\<rparr>
                     in Ok (generateSucceededReply_sg s (localIP r) (localPort r)) s))))"

definition handleRequestCommand_sg ::
  "env \<Rightarrow> SocksProxy \<Rightarrow> (byte list \<times> error option) outcome" where
  "handleRequestCommand_sg e s =
     (if command s = connect then
        andThen (handleCommandConnect_sg e s) (\<lambda>rep s. Ok (rep, None) s)
      else if command s = bind_cmd then
        andThen (closeConnectionWithError_sg commandNotSupported s) (\<lambda>_ s.
          Ok ([], Some UnsupportedCommand) s)
      else if command s = udpAssociate then
        andThen (closeConnectionWithError_sg commandNotSupported s) (\<lambda>_ s.
          Ok ([], Some UnsupportedCommand) s)
      else
        andThen (closeConnectionWithError_sg commandNotSupported s) (\<lambda>_ s.
          Ok ([], Some UnsupportedCommand) s))"

text \<open>\<open>exchange\<close> of server.go returns the first non-nil error it receives, or nil.\<close>

definition doReplyAction_sg :: "env \<Rightarrow> SocksProxy \<Rightarrow> (error option) outcome" where
  "doReplyAction_sg e s =
     (if command s = connect then
        (if reply s = succeeded then
           andThen (exchange_call (map_option ExchangeError (copyError e)) s) (\<lambda>err s.
             case err of Some x \<Rightarrow> Ok (Some x) s | None \<Rightarrow> Ok None s)
         else Ok None s)
      else Ok None s)"

text \<open>
  \<open>handle\<close>: errors are logged and the body goes on. \<open>server.remote.RemoteAddr()\<close> is
  called in the log line before \<open>server.remote\<close> is compared with nil.
\<close>

definition handle_body_sg :: "env \<Rightarrow> tcp_conn \<Rightarrow> unit outcome" where
  "handle_body_sg e c =
     andThen (handleGreetings_sg (NewProxy c)) (\<lambda>_ s.
     andThen (handleRequestHeader_sg s) (\<lambda>_ s.
     andThen (handleRequestCommand_sg e s) (\<lambda>(payload, err) s.
     andThen (if length payload > 0 then connWrite payload s else Ok True s) (\<lambda>_ s.
     andThen (doReplyAction_sg e s) (\<lambda>_ s.
       case remote s of
         None \<Rightarrow> Panic NilRemote_RemoteAddr s
       | Some r \<Rightarrow> Ok () (s\<lparr>remote := Some (connClose r),
                            trace := trace s @ [RemoteClosed]\<rparr>))))))"

definition handle_sg :: "env \<Rightarrow> tcp_conn \<Rightarrow> unit outcome" where
  "handle_sg e c =
     (case handle_body_sg e c of
        Ok u s \<Rightarrow> closeConnection_sg s
      | Panic p s \<Rightarrow> Panic p (final (closeConnection_sg s)))"

subsection \<open>The relay: \<open>exchange\<close> and its two goroutines\<close>

text \<open>
  \<open>exchange\<close> starts two goroutines, \<open>proxy(remote, client)\<close> (the direction \<open>up\<close>, from
  the client to the remote side) and \<open>proxy(client, remote)\<close> (the direction \<open>down\<close>), and
  waits. The three run interleaved; each statement is one step. \<open>io.Copy\<close> is taken as one
  step that ends with nil (end of stream) or with an error. A direction is \<open>Copying\<close>
  inside \<open>io.Copy\<close>, \<open>Copied err\<close> when \<open>io.Copy\<close> has returned \<open>err\<close>, \<open>HalfClosed\<close> when it
  has called \<open>CloseWrite\<close> on its destination, and \<open>Finished\<close> after its last statement.
  \<open>returned\<close> is \<open>None\<close> until \<open>exchange\<close> returns, then the error value it returns.
\<close>

datatype phase = Copying | Copied "string option" | HalfClosed | Finished

record relay =
  up :: phase
  down :: phase
  remoteCloseWrite :: bool
  clientCloseWrite :: bool
  returned :: "string option option"

text \<open>part_001: a \<open>sync.WaitGroup\<close> with counter \<open>wg\<close>, set to 2 by \<open>wg.Add(2)\<close>.\<close>

record relay_p1 = relay +
  wg :: nat

definition start_p1 :: relay_p1 where
  "start_p1 =
     \<lparr>up = Copying, down = Copying, remoteCloseWrite = False, clientCloseWrite = False,
      returned = None, wg = 2\<rparr>"

text \<open>
  Each goroutine of part_001: \<open>io.Copy\<close> returns; \<open>dst.(*net.TCPConn).CloseWrite()\<close>;
  \<open>wg.Done()\<close>. The caller: \<open>wg.Wait()\<close> goes on when the counter is 0, then \<open>return nil\<close>.
\<close>

inductive step_p1 :: "relay_p1 \<Rightarrow> relay_p1 \<Rightarrow> bool" where
  up_copied: "up s = Copying \<Longrightarrow> step_p1 s (s\<lparr>up := Copied err\<rparr>)"
| up_closeWrite:
    "up s = Copied err \<Longrightarrow> step_p1 s (s\<lparr>up := HalfClosed, remoteCloseWrite := True\<rparr>)"
| up_done: "up s = HalfClosed \<Longrightarrow> step_p1 s (s\<lparr>up := Finished, wg := wg s - 1\<rparr>)"
| down_copied: "down s = Copying \<Longrightarrow> step_p1 s (s\<lparr>down := Copied err\<rparr>)"
| down_closeWrite:
    "down s = Copied err \<Longrightarrow> step_p1 s (s\<lparr>down := HalfClosed, clientCloseWrite := True\<rparr>)"
| down_done: "down s = HalfClosed \<Longrightarrow> step_p1 s (s\<lparr>down := Finished, wg := wg s - 1\<rparr>)"
| wait_return:
    "wg s = 0 \<Longrightarrow> returned s = None \<Longrightarrow> step_p1 s (s\<lparr>returned := Some None\<rparr>)"

text \<open>
  server.go: a channel \<open>errCh\<close> with room for two values, and the loop counter \<open>i\<close>
  (here \<open>rounds\<close>) of the
  caller, which receives twice and returns at the first error it receives.
\<close>

record relay_sg = relay +
  errCh :: "string option list"
  rounds :: nat

definition start_sg :: relay_sg where
  "start_sg =
     \<lparr>up = Copying, down = Copying, remoteCloseWrite = False, clientCloseWrite = False,
      returned = None, errCh = [], rounds = 0\<rparr>"

text \<open>
  Each goroutine of server.go: \<open>io.Copy\<close> returns; \<open>errCh <- err\<close>. The caller: in round
  \<open>rounds < 2\<close> it receives a value and returns it when it is an error, else goes to the next
  round; after two rounds, \<open>return nil\<close>.
\<close>

inductive step_sg :: "relay_sg \<Rightarrow> relay_sg \<Rightarrow> bool" where
  up_copied_sg: "up s = Copying \<Longrightarrow> step_sg s (s\<lparr>up := Copied err\<rparr>)"
| up_send:
    "up s = Copied err \<Longrightarrow> length (errCh s) < 2 \<Longrightarrow>
     step_sg s (s\<lparr>up := Finished, errCh := errCh s @ [err]\<rparr>)"
| down_copied_sg: "down s = Copying \<Longrightarrow> step_sg s (s\<lparr>down := Copied err\<rparr>)"
| down_send:
    "down s = Copied err \<Longrightarrow> length (errCh s) < 2 \<Longrightarrow>
     step_sg s (s\<lparr>down := Finished, errCh := errCh s @ [err]\<rparr>)"
| receive_error:
    "returned s = None \<Longrightarrow> rounds s < 2 \<Longrightarrow> errCh s = Some e # rest \<Longrightarrow>
     step_sg s (s\<lparr>returned := Some (Some e), errCh := rest\<rparr>)"
| receive_nil:
    "returned s = None \<Longrightarrow> rounds s < 2 \<Longrightarrow> errCh s = None # rest \<Longrightarrow>
     step_sg s (s\<lparr>errCh := rest, rounds := rounds s + 1\<rparr>)"
| loop_exit:
    "returned s = None \<Longrightarrow> \<not> rounds s < 2 \<Longrightarrow> step_sg s (s\<lparr>returned := Some None\<rparr>)"

subsection \<open>Concrete connections and environments\<close>

text \<open>An accepted client connection on which the client has sent the bytes \<open>bs\<close>.\<close>

definition client :: "byte list \<Rightarrow> tcp_conn" where
  "client bs = \<lparr>input = bs, closed = False, localIP = [127, 0, 0, 1], localPort = 1081\<rparr>"

text \<open>Dotted decimal, the text of a four-byte address.\<close>

definition dotted :: "byte list \<Rightarrow> string" where
  "dotted ip =
     (case ip of
        [a, b, c, d] \<Rightarrow>
          decimal (unat a) @ ''.'' @ decimal (unat b) @ ''.'' @ decimal (unat c) @ ''.''
          @ decimal (unat d)
      | _ \<Rightarrow> ''?'')"

text \<open>An outbound connection bound to 127.0.0.1:54321.\<close>

definition outbound :: tcp_conn where
  "outbound = \<lparr>input = [], closed = False, localIP = [127, 0, 0, 1], localPort = 54321\<rparr>"

text \<open>The name "example.com" as bytes, and the IPv6 loopback address.\<close>

definition example_com :: "byte list" where
  "example_com = [101, 120, 97, 109, 112, 108, 101, 46, 99, 111, 109]"

definition loopback6 :: "byte list" where
  "loopback6 = [0, 0, 0, 0, 0, 0, 0, 0, 0, 0, 0, 0, 0, 0, 0, 1]"

text \<open>
  An environment: "example.com" resolves to 93.184.216.34, the name "v6" to the IPv6
  loopback address, the name "no" to an empty list without error, and every other lookup
  fails. A dial to 127.0.0.1:8080 succeeds; a dial to 10.0.0.1:80 finds the network
  unreachable, one to 10.0.0.2:80 is refused, and every other dial times out.
\<close>

definition env_test :: env where
  "env_test =
     \<lparr>lookupIP = (\<lambda>name. if name = example_com then Inr [[93, 184, 216, 34]]
                         else if name = [118, 54] then Inr [loopback6]
                         else if name = [110, 111] then Inr []
                         else Inl ''lookup: no such host''),
      dial = (\<lambda>a. if a = ''127.0.0.1:8080'' then Inr outbound
                   else if a = ''10.0.0.1:80''
                   then Inl ''dial tcp 10.0.0.1:80: connect: network is unreachable''
                   else if a = ''10.0.0.2:80''
                   then Inl ''dial tcp 10.0.0.2:80: connect: connection refused''
                   else Inl ''dial tcp: i/o timeout''),
      ipString = dotted, addrString = dotted, copyError = None\<rparr>"





text \<open>A session that has parsed a connect request for the IPv4 address \<open>ip\<close>, port 80.\<close>

definition connect_ipv4 :: "byte list \<Rightarrow> SocksProxy" where
  "connect_ipv4 ip =
     (NewProxy (client []))\<lparr>command := connect, addressType := ipv4, IP := ip, port := 80\<rparr>"

text \<open>A session that has parsed a bind request for the IPv4 address 127.0.0.1, port 80.\<close>

definition bind_request :: SocksProxy where
  "bind_request =
     (NewProxy (client []))\<lparr>command := bind_cmd, addressType := ipv4, IP := [127, 0, 0, 1],
                             port := 80\<rparr>"

text \<open>A session that has parsed a connect request for the domain name \<open>name\<close>, port 80.\<close>

definition connect_domain :: "byte list \<Rightarrow> SocksProxy" where
  "connect_domain name =
     (NewProxy (client []))\<lparr>command := connect, addressType := domainName, FQDN := name,
                             port := 80\<rparr>"

text \<open>
  The session of server.go when \<open>handle\<close> has run \<open>handleGreetings\<close> and
  \<open>handleRequestHeader\<close> on the accepted connection \<open>c\<close>.
\<close>

definition request_sg :: "tcp_conn \<Rightarrow> SocksProxy" where
  "request_sg c = final (handleRequestHeader_sg (final (handleGreetings_sg (NewProxy c))))"

section \<open>Properties\<close>

subsection \<open>Basic facts\<close>

lemma andThen_Ok [simp]: "andThen (Ok x s) f = f x s"
  by (simp add: andThen_def)

lemma andThen_Panic [simp]: "andThen (Panic p s) f = Panic p s"
  by (simp add: andThen_def)

lemma connClose_closed: "closed c \<Longrightarrow> connClose c = c"
  by (simp add: connClose_def)

subsection \<open>Closing the client connection\<close>




subsection \<open>Reading the offered methods\<close>

lemma word_less_Suc_unat:
  fixes i n :: byte
  assumes "i < n"
  shows "unat (i + 1) = Suc (unat i)" and "unat i < unat n"
proof -
  from assms have "i \<noteq> - 1"
    by (metis word_order.extremum_strict)
  then have "1 + i \<noteq> 0"
    by (metis add_eq_0_iff)
  then show "unat (i + 1) = Suc (unat i)"
    by (simp add: unatSuc add.commute)
  from assms show "unat i < unat n"
    by (simp add: word_less_nat_alt)
qed

text \<open>
  Updates of different fields commute; the simplifier uses this to order the updates of
  the fields that the failure paths set.
\<close>

lemma update_order:
  fixes s :: SocksProxy
  shows
    "s\<lparr>reply := v_reply, conn := v_conn\<rparr>
       = s\<lparr>conn := v_conn, reply := v_reply\<rparr>"
  and "s\<lparr>remote := v_remote, conn := v_conn\<rparr>
       = s\<lparr>conn := v_conn, remote := v_remote\<rparr>"
  and "s\<lparr>methods := v_methods, conn := v_conn\<rparr>
       = s\<lparr>conn := v_conn, methods := v_methods\<rparr>"
  and "s\<lparr>trace := v_trace, conn := v_conn\<rparr>
       = s\<lparr>conn := v_conn, trace := v_trace\<rparr>"
  and "s\<lparr>remote := v_remote, reply := v_reply\<rparr>
       = s\<lparr>reply := v_reply, remote := v_remote\<rparr>"
  and "s\<lparr>methods := v_methods, reply := v_reply\<rparr>
       = s\<lparr>reply := v_reply, methods := v_methods\<rparr>"
  and "s\<lparr>trace := v_trace, reply := v_reply\<rparr>
       = s\<lparr>reply := v_reply, trace := v_trace\<rparr>"
  and "s\<lparr>methods := v_methods, remote := v_remote\<rparr>
       = s\<lparr>remote := v_remote, methods := v_methods\<rparr>"
  and "s\<lparr>trace := v_trace, remote := v_remote\<rparr>
       = s\<lparr>remote := v_remote, trace := v_trace\<rparr>"
  and "s\<lparr>trace := v_trace, methods := v_methods\<rparr>
       = s\<lparr>methods := v_methods, trace := v_trace\<rparr>"
  by (cases s; simp)+

lemma byte_le_255 [simp]: "(n :: byte) \<le> 255"
proof -
  have "unat n < 2 ^ 8"
    using unsigned_less [of n] by simp
  then show ?thesis
    by (simp add: word_le_nat_alt)
qed

lemma byte_ge_1: "(1 \<le> (n :: byte)) = (n \<noteq> 0)"
  by (simp add: word_le_nat_alt unat_gt_0 Suc_le_eq)

lemma connRead_closed:
  "conn s = Some c \<Longrightarrow> closed c \<Longrightarrow> connRead buf s = Ok buf s"
  by (simp add: connRead_def)

lemma loop_closed:
  "conn s = Some c \<Longrightarrow> closed c \<Longrightarrow>
   \<exists>ms'. getAvailableMethods_loop i n m ms s = Ok ms' s"
proof (induction i n m ms s rule: getAvailableMethods_loop.induct)
  case (1 i nmethod m ms s)
  show ?case
  proof (cases "i < nmethod")
    case True
    have r: "connRead m s = Ok m s"
      using "1.prems" by (rule connRead_closed)
    from "1.IH" [OF True r] "1.prems"
    obtain ms' where "getAvailableMethods_loop (i + 1) nmethod m (ms[unat i := m ! 0]) s = Ok ms' s"
      by blast
    with True r show ?thesis
      by (subst getAvailableMethods_loop.simps) simp
  next
    case False
    then show ?thesis
      by (subst getAvailableMethods_loop.simps) simp
  qed
qed

lemma loop_open:
  "conn s = Some c \<Longrightarrow> \<not> closed c \<Longrightarrow>
   \<exists>ms' c'. getAvailableMethods_loop i n m ms s = Ok ms' (s\<lparr>conn := Some c'\<rparr>) \<and> \<not> closed c'"
proof (induction i n m ms s arbitrary: c rule: getAvailableMethods_loop.induct)
  case (1 i nmethod m ms s)
  show ?case
  proof (cases "i < nmethod")
    case True
    define k where "k = min (length m) (length (input c))"
    define c1 where "c1 = c\<lparr>input := drop k (input c)\<rparr>"
    define m1 where "m1 = take k (input c) @ drop k m"
    have r: "connRead m s = Ok m1 (s\<lparr>conn := Some c1\<rparr>)"
      using "1.prems" by (simp add: connRead_def k_def c1_def m1_def Let_def)
    have "conn (s\<lparr>conn := Some c1\<rparr>) = Some c1" "\<not> closed c1"
      using "1.prems" by (simp_all add: c1_def)
    from "1.IH" [OF True r this]
    obtain ms' c' where
      "getAvailableMethods_loop (i + 1) nmethod m1 (ms[unat i := m1 ! 0]) (s\<lparr>conn := Some c1\<rparr>)
         = Ok ms' (s\<lparr>conn := Some c1\<rparr>\<lparr>conn := Some c'\<rparr>)" "\<not> closed c'"
      by blast
    with True r show ?thesis
      by (subst getAvailableMethods_loop.simps) auto
  next
    case False
    with "1.prems" show ?thesis
      by (subst getAvailableMethods_loop.simps) (auto intro: exI [of _ c])
  qed
qed

lemma loop_exact:
  "conn s = Some c \<Longrightarrow> \<not> closed c \<Longrightarrow> length m = 1 \<Longrightarrow> length ms = unat n \<Longrightarrow>
   unat n - unat i \<le> length (input c) \<Longrightarrow>
   getAvailableMethods_loop i n m ms s
     = Ok (take (unat i) ms @ take (unat n - unat i) (input c))
          (s\<lparr>conn := Some (c\<lparr>input := drop (unat n - unat i) (input c)\<rparr>)\<rparr>)"
proof (induction i n m ms s arbitrary: c rule: getAvailableMethods_loop.induct)
  case (1 i nmethod m ms s)
  show ?case
  proof (cases "i < nmethod")
    case True
    note w = word_less_Suc_unat [OF True]
    from w "1.prems" obtain x xs where inp: "input c = x # xs"
      by (cases "input c") auto
    define c1 where "c1 = c\<lparr>input := xs\<rparr>"
    have r: "connRead m s = Ok [x] (s\<lparr>conn := Some c1\<rparr>)"
      using "1.prems" inp by (simp add: connRead_def c1_def Let_def)
    have p: "conn (s\<lparr>conn := Some c1\<rparr>) = Some c1" "\<not> closed c1" "length [x] = 1"
      "length (ms[unat i := [x] ! 0]) = unat nmethod"
      "unat nmethod - unat (i + 1) \<le> length (input c1)"
      using "1.prems" inp w by (simp_all add: c1_def)
    have "getAvailableMethods_loop i nmethod m ms s
        = getAvailableMethods_loop (i + 1) nmethod [x] (ms[unat i := [x] ! 0]) (s\<lparr>conn := Some c1\<rparr>)"
      using True r by (subst getAvailableMethods_loop.simps) simp
    also note "1.IH" [OF True r p]
    finally show ?thesis
      using w "1.prems" inp
      by (simp add: c1_def take_Suc_conv_app_nth Suc_diff_Suc [symmetric] del: Suc_diff_Suc)
  next
    case False
    then have "unat nmethod \<le> unat i"
      by (simp add: word_less_nat_alt not_less)
    with False "1.prems" show ?thesis
      by (subst getAvailableMethods_loop.simps) simp
  qed
qed

subsection \<open>The failure reply and the greeting\<close>

lemma cwe_p1_open:
  "conn s = Some c \<Longrightarrow> \<not> closed c \<Longrightarrow>
   closeConnectionWithError_p1 r s
     = Ok () (s\<lparr>conn := None, reply := r,
               trace := trace s @ [Sent [5, r, 0, addressType s, 0, 0, 0, 0, 0, 0], ClientClosed]\<rparr>)"
  by (simp add: closeConnectionWithError_p1_def generateFailedReply_p1_def generateReply_p1_def
      IsValid_def zeroAddrPort_def connWrite_def closeConnection_p1_def socksVersion_def)

lemma cwe_sg_open:
  "conn s = Some c \<Longrightarrow> \<not> closed c \<Longrightarrow>
   closeConnectionWithError_sg r s
     = Ok () (s\<lparr>conn := Some (connClose c), reply := r,
               trace := trace s @ [Sent [5, r, 0, addressType s, 0, 0, 0], ClientClosed]\<rparr>)"
  by (simp add: closeConnectionWithError_sg_def generateFailedReply_sg_def generateReply_sg_def
      connWrite_def closeConnection_sg_def socksVersion_def)

lemma cwe_sg_closed:
  "conn s = Some c \<Longrightarrow> closed c \<Longrightarrow> closeConnectionWithError_sg r s = Ok () (s\<lparr>reply := r\<rparr>)"
  by (simp add: closeConnectionWithError_sg_def connWrite_def closeConnection_sg_def
      connClose_closed)

lemma getAvailableMethods_open:
  "conn s = Some c \<Longrightarrow> \<not> closed c \<Longrightarrow>
   \<exists>ms c'. getAvailableMethods n s = Ok ms (s\<lparr>conn := Some c'\<rparr>) \<and> \<not> closed c'"
  unfolding getAvailableMethods_def by (rule loop_open)

lemma getAvailableMethods_closed:
  "conn s = Some c \<Longrightarrow> closed c \<Longrightarrow> \<exists>ms. getAvailableMethods n s = Ok ms s"
  unfolding getAvailableMethods_def by (rule loop_closed)

lemma getAvailableMethods_exact:
  assumes "conn s = Some c" "\<not> closed c" "unat n \<le> length (input c)"
  shows "getAvailableMethods n s
     = Ok (take (unat n) (input c)) (s\<lparr>conn := Some (c\<lparr>input := drop (unat n) (input c)\<rparr>)\<rparr>)"
  unfolding getAvailableMethods_def using assms
  by (simp add: loop_exact)

lemma greet_p1_accept:
  assumes "conn s = Some c" "\<not> closed c" "input c = v # nm # rest" "nm \<noteq> 0"
  shows "\<exists>ms c'. handleGreetings_p1 s
           = Ok None (s\<lparr>conn := Some c', methods := ms, trace := trace s @ [Sent [5, 0]]\<rparr>)
         \<and> \<not> closed c'"
proof -
  define s1 where "s1 = s\<lparr>conn := Some (c\<lparr>input := rest\<rparr>)\<rparr>"
  have c1: "conn s1 = Some (c\<lparr>input := rest\<rparr>)" "\<not> closed (c\<lparr>input := rest\<rparr>)"
    using assms by (simp_all add: s1_def)
  from getAvailableMethods_open [OF c1, of nm] obtain ms c' where
    g: "getAvailableMethods nm s1 = Ok ms (s1\<lparr>conn := Some c'\<rparr>)" and o: "\<not> closed c'"
    by blast
  have nm: "1 \<le> nm"
    using assms(4) by (simp add: byte_ge_1)
  have "handleGreetings_p1 s
      = Ok None (s\<lparr>conn := Some c', methods := ms, trace := trace s @ [Sent [5, 0]]\<rparr>)"
    using assms nm g o
    by (simp add: handleGreetings_p1_def connRead_def ensureNMethod_p1_def connWrite_def
        s1_def socksVersion_def noAuth_def)
  with o show ?thesis by blast
qed

lemma greet_sg_accept:
  assumes "conn s = Some c" "\<not> closed c" "input c = 5 # nm # rest" "nm \<noteq> 0"
  shows "\<exists>ms c'. handleGreetings_sg s
           = Ok () (s\<lparr>conn := Some c', methods := ms, trace := trace s @ [Sent [5, 0]]\<rparr>)
         \<and> \<not> closed c'"
proof -
  define s1 where "s1 = s\<lparr>conn := Some (c\<lparr>input := rest\<rparr>)\<rparr>"
  have c1: "conn s1 = Some (c\<lparr>input := rest\<rparr>)" "\<not> closed (c\<lparr>input := rest\<rparr>)"
    using assms by (simp_all add: s1_def)
  from getAvailableMethods_open [OF c1, of nm] obtain ms c' where
    g: "getAvailableMethods nm s1 = Ok ms (s1\<lparr>conn := Some c'\<rparr>)" and o: "\<not> closed c'"
    by blast
  have nm: "1 \<le> nm"
    using assms(4) by (simp add: byte_ge_1)
  have "handleGreetings_sg s
      = Ok () (s\<lparr>conn := Some c', methods := ms, trace := trace s @ [Sent [5, 0]]\<rparr>)"
    using assms nm g o
    by (simp add: handleGreetings_sg_def connRead_def ensureNMethod_sg_def ensureVersion_sg_def
        connWrite_def s1_def socksVersion_def noAuth_def)
  with o show ?thesis by blast
qed

lemma greet_sg_reject:
  assumes "conn s = Some c" "\<not> closed c" "input c = v # nm # rest" "v \<noteq> 5"
  shows "\<exists>ms c'. handleGreetings_sg s
           = Ok () (s\<lparr>conn := Some c', reply := generalFailure, methods := ms,
                     trace := trace s @ [Sent [5, generalFailure, 0, addressType s, 0, 0, 0],
                                         ClientClosed]\<rparr>)
         \<and> closed c'"
proof -
  define c1 where "c1 = connClose (c\<lparr>input := rest\<rparr>)"
  define s1 where "s1 = s\<lparr>conn := Some c1, reply := generalFailure,
      trace := trace s @ [Sent [5, generalFailure, 0, addressType s, 0, 0, 0], ClientClosed]\<rparr>"
  have c1: "conn s1 = Some c1" "closed c1"
    by (simp_all add: s1_def c1_def connClose_def)
  from getAvailableMethods_closed [OF c1, of nm] obtain ms where
    g: "getAvailableMethods nm s1 = Ok ms s1"
    by blast
  have "handleGreetings_sg s = Ok () (s1\<lparr>methods := ms\<rparr>)"
    using assms g c1
    by (simp add: handleGreetings_sg_def connRead_def ensureVersion_sg_def ensureNMethod_sg_def
        cwe_sg_open cwe_sg_closed connWrite_def s1_def c1_def socksVersion_def connClose_def
        update_order)
  then show ?thesis
    using c1 by (auto simp: s1_def intro!: exI [of _ ms] exI [of _ c1])
qed

lemma greet_p1_methods:
  assumes "conn s = Some c" "\<not> closed c" "input c = v # nm # rest" "nm \<noteq> 0"
    "unat nm \<le> length rest"
  shows "handleGreetings_p1 s
           = Ok None (s\<lparr>conn := Some (c\<lparr>input := drop (unat nm) rest\<rparr>),
                       methods := take (unat nm) rest, trace := trace s @ [Sent [5, 0]]\<rparr>)"
proof -
  define s1 where "s1 = s\<lparr>conn := Some (c\<lparr>input := rest\<rparr>)\<rparr>"
  have c1: "conn s1 = Some (c\<lparr>input := rest\<rparr>)" "\<not> closed (c\<lparr>input := rest\<rparr>)"
    "unat nm \<le> length (input (c\<lparr>input := rest\<rparr>))"
    using assms by (simp_all add: s1_def)
  note g = getAvailableMethods_exact [OF c1]
  show ?thesis
    using assms g
    by (simp add: handleGreetings_p1_def connRead_def ensureNMethod_p1_def connWrite_def
        s1_def socksVersion_def noAuth_def byte_ge_1)
qed

lemma greet_sg_methods:
  assumes "conn s = Some c" "\<not> closed c" "input c = 5 # nm # rest" "nm \<noteq> 0"
    "unat nm \<le> length rest"
  shows "handleGreetings_sg s
           = Ok () (s\<lparr>conn := Some (c\<lparr>input := drop (unat nm) rest\<rparr>),
                     methods := take (unat nm) rest, trace := trace s @ [Sent [5, 0]]\<rparr>)"
proof -
  define s1 where "s1 = s\<lparr>conn := Some (c\<lparr>input := rest\<rparr>)\<rparr>"
  have c1: "conn s1 = Some (c\<lparr>input := rest\<rparr>)" "\<not> closed (c\<lparr>input := rest\<rparr>)"
    "unat nm \<le> length (input (c\<lparr>input := rest\<rparr>))"
    using assms by (simp_all add: s1_def)
  note g = getAvailableMethods_exact [OF c1]
  show ?thesis
    using assms g
    by (simp add: handleGreetings_sg_def connRead_def ensureNMethod_sg_def ensureVersion_sg_def
        connWrite_def s1_def socksVersion_def noAuth_def byte_ge_1)
qed

text \<open>
  Claim C8. On an open client connection whose next bytes are a greeting with version 5
  and a method count \<open>nmethods\<close> between 1 and 255, \<open>handleGreetings\<close> of either file
  returns without error, leaves the connection open, and writes exactly one payload, the
  two bytes 05 00, whatever bytes follow the count. When the \<open>nmethods\<close> method bytes are
  all there, they are what is stored in \<open>methods\<close>.
\<close>

theorem greeting_accepted_reply_05_00:
  assumes "conn s = Some c" and "\<not> closed c"
    and "input c = socksVersion # nmethods # rest"
    and "1 \<le> nmethods" and "nmethods \<le> 255"
  shows "(\<exists>ms c'. handleGreetings_p1 s
            = Ok None (s\<lparr>conn := Some c', methods := ms,
                        trace := trace s @ [Sent [0x05, 0x00]]\<rparr>) \<and> \<not> closed c')
       \<and> (\<exists>ms c'. handleGreetings_sg s
            = Ok () (s\<lparr>conn := Some c', methods := ms,
                      trace := trace s @ [Sent [0x05, 0x00]]\<rparr>) \<and> \<not> closed c')
       \<and> (unat nmethods \<le> length rest \<longrightarrow>
            methods (final (handleGreetings_p1 s)) = take (unat nmethods) rest
            \<and> methods (final (handleGreetings_sg s)) = take (unat nmethods) rest)"
proof -
  from assms(4) have nz: "nmethods \<noteq> 0"
    by (simp add: byte_ge_1)
  from assms(3) have i: "input c = 5 # nmethods # rest"
    by (simp add: socksVersion_def)
  have a: "\<exists>ms c'. handleGreetings_p1 s
            = Ok None (s\<lparr>conn := Some c', methods := ms,
                        trace := trace s @ [Sent [0x05, 0x00]]\<rparr>) \<and> \<not> closed c'"
    using greet_p1_accept [OF assms(1,2) i nz] .
  have b: "\<exists>ms c'. handleGreetings_sg s
            = Ok () (s\<lparr>conn := Some c', methods := ms,
                      trace := trace s @ [Sent [0x05, 0x00]]\<rparr>) \<and> \<not> closed c'"
    using greet_sg_accept [OF assms(1,2) i nz] .
  have c: "unat nmethods \<le> length rest \<longrightarrow>
            methods (final (handleGreetings_p1 s)) = take (unat nmethods) rest
            \<and> methods (final (handleGreetings_sg s)) = take (unat nmethods) rest"
    by (simp add: greet_p1_methods [OF assms(1,2) i nz] greet_sg_methods [OF assms(1,2) i nz])
  from a b c show ?thesis by blast
qed

theorem greeting_accepted_reply_05_00_witness:
  "conn (NewProxy (client [5, 2, 0, 2, 5, 1])) = Some (client [5, 2, 0, 2, 5, 1])
   \<and> \<not> closed (client [5, 2, 0, 2, 5, 1])
   \<and> input (client [5, 2, 0, 2, 5, 1]) = socksVersion # 2 # [0, 2, 5, 1]
   \<and> (1 :: byte) \<le> 2 \<and> (2 :: byte) \<le> 255
   \<and> trace (final (handleGreetings_p1 (NewProxy (client [5, 2, 0, 2, 5, 1])))) = [Sent [5, 0]]
   \<and> trace (final (handleGreetings_sg (NewProxy (client [5, 2, 0, 2, 5, 1])))) = [Sent [5, 0]]
   \<and> methods (final (handleGreetings_p1 (NewProxy (client [5, 2, 0, 2, 5, 1])))) = [0, 2]
   \<and> methods (final (handleGreetings_sg (NewProxy (client [5, 2, 0, 2, 5, 1])))) = [0, 2]"
proof -
  let ?s = "NewProxy (client [5, 2, 0, 2, 5, 1])"
  have h: "conn ?s = Some (client [5, 2, 0, 2, 5, 1])" "\<not> closed (client [5, 2, 0, 2, 5, 1])"
    "input (client [5, 2, 0, 2, 5, 1]) = socksVersion # 2 # [0, 2, 5, 1]"
    "(1 :: byte) \<le> 2" "(2 :: byte) \<le> 255"
    by (simp_all add: NewProxy_def client_def socksVersion_def)
  note t = greeting_accepted_reply_05_00 [OF h]
  from t obtain ms c' where
    p: "handleGreetings_p1 ?s = Ok None (?s\<lparr>conn := Some c', methods := ms,
                        trace := trace ?s @ [Sent [0x05, 0x00]]\<rparr>)"
    by blast
  from t obtain ms2 c2 where
    q: "handleGreetings_sg ?s = Ok () (?s\<lparr>conn := Some c2, methods := ms2,
                        trace := trace ?s @ [Sent [0x05, 0x00]]\<rparr>)"
    by blast
  from t have m: "methods (final (handleGreetings_p1 ?s)) = take (unat (2 :: byte)) [0, 2, 5, 1]"
    "methods (final (handleGreetings_sg ?s)) = take (unat (2 :: byte)) [0, 2, 5, 1]"
    by simp_all
  have tr: "trace (final (handleGreetings_p1 ?s)) = [Sent [5, 0]]"
    "trace (final (handleGreetings_sg ?s)) = [Sent [5, 0]]"
    by (simp_all add: p q) (simp_all add: NewProxy_def)
  from h m tr show ?thesis
    by simp
qed

subsection \<open>The version byte of the greeting\<close>

text \<open>
  Claim C3 at the greeting 04 01 00. In part_001 a greeting with version byte 4 is
  decoded without error, answered with 05 00, and the connection stays open for the
  request: the call of \<open>ensureVersion\<close> in \<open>handleGreetings\<close> is commented out, and the
  test for a nil connection that follows it can no longer fail. \<open>handleRequestHeader\<close> of
  the same file and \<open>handleGreetings\<close> of server.go do make the call.
\<close>

theorem greeting_version_4_accepted_p1:
  "handleGreetings_p1 (NewProxy (client [4, 1, 0]))
     = Ok None ((NewProxy (client [4, 1, 0]))
         \<lparr>conn := Some (client []), methods := [0], trace := [Sent [5, 0]]\<rparr>)"
  by (simp add: handleGreetings_p1_def NewProxy_def client_def connRead_def
      ensureNMethod_p1_def getAvailableMethods_def getAvailableMethods_loop.simps
      connWrite_def socks_consts)

text \<open>
  The same for every greeting whose version byte is not 5: \<open>handleGreetings\<close> of
  server.go writes one reply with code general failure and closes the client connection;
  \<open>handleGreetings\<close> of part_001 does not look at the version byte, and when the method
  count is at least 1 it returns without error, writes 05 00 and leaves the connection
  open.
\<close>

lemma greeting_version_not_5:
  assumes "conn s = Some c" and "\<not> closed c"
    and "input c = v # nmethods # rest"
    and "v \<noteq> socksVersion"
  shows "(\<exists>ms c'. handleGreetings_sg s
            = Ok () (s\<lparr>conn := Some c', reply := generalFailure, methods := ms,
                      trace := trace s @ [Sent [socksVersion, generalFailure, 0, addressType s,
                                                0, 0, 0],
                                          ClientClosed]\<rparr>) \<and> closed c')
       \<and> (1 \<le> nmethods \<longrightarrow>
            (\<exists>ms c'. handleGreetings_p1 s
               = Ok None (s\<lparr>conn := Some c', methods := ms,
                           trace := trace s @ [Sent [socksVersion, noAuth]]\<rparr>) \<and> \<not> closed c'))"
proof -
  from assms(4) have v: "v \<noteq> 5"
    by (simp add: socksVersion_def)
  have a: "\<exists>ms c'. handleGreetings_sg s
            = Ok () (s\<lparr>conn := Some c', reply := generalFailure, methods := ms,
                      trace := trace s @ [Sent [socksVersion, generalFailure, 0, addressType s,
                                                0, 0, 0],
                                          ClientClosed]\<rparr>) \<and> closed c'"
    using greet_sg_reject [OF assms(1,2,3) v] by (simp add: socksVersion_def)
  have b: "\<exists>ms c'. handleGreetings_p1 s
               = Ok None (s\<lparr>conn := Some c', methods := ms,
                           trace := trace s @ [Sent [socksVersion, noAuth]]\<rparr>) \<and> \<not> closed c'"
    if "1 \<le> nmethods"
  proof -
    from that have "nmethods \<noteq> 0"
      by (simp add: byte_ge_1)
    from greet_p1_accept [OF assms(1,2,3) this] show ?thesis
      by (simp add: socksVersion_def noAuth_def)
  qed
  from a b show ?thesis by blast
qed

lemma greeting_version_not_5_example:
  "conn (NewProxy (client [4, 1, 0])) = Some (client [4, 1, 0])
   \<and> \<not> closed (client [4, 1, 0])
   \<and> input (client [4, 1, 0]) = 4 # 1 # [0]
   \<and> 4 \<noteq> socksVersion
   \<and> (1 :: byte) \<le> 1
   \<and> trace (final (handleGreetings_sg (NewProxy (client [4, 1, 0]))))
       = [Sent [5, 1, 0, 0, 0, 0, 0], ClientClosed]
   \<and> trace (final (handleGreetings_p1 (NewProxy (client [4, 1, 0])))) = [Sent [5, 0]]"
proof -
  let ?s = "NewProxy (client [4, 1, 0])"
  have h: "conn ?s = Some (client [4, 1, 0])" "\<not> closed (client [4, 1, 0])"
    "input (client [4, 1, 0]) = 4 # 1 # [0]" "4 \<noteq> socksVersion"
    by (simp_all add: NewProxy_def client_def socksVersion_def)
  have n: "(1 :: byte) \<le> 1"
    by simp
  note t = greeting_version_not_5 [OF h]
  from t obtain ms c' where
    p: "handleGreetings_sg ?s
            = Ok () (?s\<lparr>conn := Some c', reply := generalFailure, methods := ms,
                      trace := trace ?s @ [Sent [socksVersion, generalFailure, 0, addressType ?s,
                                                0, 0, 0],
                                          ClientClosed]\<rparr>)"
    by blast
  from t n obtain ms2 c2 where
    q: "handleGreetings_p1 ?s
               = Ok None (?s\<lparr>conn := Some c2, methods := ms2,
                           trace := trace ?s @ [Sent [socksVersion, noAuth]]\<rparr>)"
    by blast
  have tr: "trace (final (handleGreetings_sg ?s)) = [Sent [5, 1, 0, 0, 0, 0, 0], ClientClosed]"
    "trace (final (handleGreetings_p1 ?s)) = [Sent [5, 0]]"
    by (simp_all add: p q) (simp_all add: NewProxy_def socks_consts)
  from h n tr show ?thesis
    by simp
qed

subsection \<open>Classifying a dial error\<close>

text \<open>\<open>Contains\<close> is the substring test.\<close>

lemma Contains_iff: "Contains s sub \<longleftrightarrow> (\<exists>p q. s = p @ sub @ q)"
proof (induction s)
  case Nil
  then show ?case by auto
next
  case (Cons c cs)
  show ?case
  proof
    assume "Contains (c # cs) sub"
    then consider "prefix sub (c # cs)" | "Contains cs sub"
      by auto
    then show "\<exists>p q. c # cs = p @ sub @ q"
    proof cases
      case 1
      then obtain q where "c # cs = sub @ q"
        by (auto simp: prefix_def)
      then have "c # cs = [] @ sub @ q" by simp
      then show ?thesis by blast
    next
      case 2
      with Cons.IH obtain p q where "cs = p @ sub @ q" by blast
      then have "c # cs = (c # p) @ sub @ q" by simp
      then show ?thesis by blast
    qed
  next
    assume "\<exists>p q. c # cs = p @ sub @ q"
    then obtain p q where e: "c # cs = p @ sub @ q" by blast
    show "Contains (c # cs) sub"
    proof (cases p)
      case Nil
      with e have "prefix sub (c # cs)"
        by (simp add: prefix_def)
      then show ?thesis by simp
    next
      case (Cons x p')
      with e have "cs = p' @ sub @ q" by simp
      with Cons.IH have "Contains cs sub" by blast
      then show ?thesis by simp
    qed
  qed
qed

lemma final_cwe_p1:
  "conn s \<noteq> None \<Longrightarrow>
   \<exists>s'. closeConnectionWithError_p1 r s = Ok () s' \<and> reply s' = r \<and> conn s' = None
        \<and> remote s' = remote s"
  by (cases "conn s")
    (auto simp: closeConnectionWithError_p1_def connWrite_def closeConnection_p1_def Let_def)

lemma final_cwe_sg: "reply (final (closeConnectionWithError_sg r s)) = r"
  by (cases "conn s")
    (auto simp: closeConnectionWithError_sg_def connWrite_def closeConnection_sg_def Let_def)

lemma final_andThen_Panic: "final (andThen r (\<lambda>x s. Panic p s)) = final r"
  by (cases r) simp_all

text \<open>
  Claim C5. When \<open>net.Dial\<close> fails with message \<open>msg\<close>, \<open>handleCommandConnect\<close> of either
  file records the reply code chosen from the text of the message: network unreachable
  when it contains "network is unreachable", else connection refused when it contains
  "refused", else host unreachable. On an open client connection the reply written carries
  that code. (The dial is reached when \<open>constructRemoteAddress\<close> has returned an address
  and, in part_001, the client connection is not nil.)
\<close>

theorem dial_error_reply_code:
  assumes "dial e a = Inl msg"
  shows
    "(let code = (if Contains msg ''network is unreachable'' then networkUnreachable
                  else if Contains msg ''refused'' then connectionRefused
                  else hostUnreachable)
      in (constructRemoteAddress_p1 e s = Ok a s1 \<and> conn s1 \<noteq> None \<longrightarrow>
            reply (final (handleCommandConnect_p1 e s)) = code)
       \<and> (constructRemoteAddress_sg e s = Ok a s2 \<longrightarrow>
            reply (final (handleCommandConnect_sg e s)) = code)
       \<and> (\<forall>c. constructRemoteAddress_p1 e s = Ok a s1 \<and> conn s1 = Some c \<and> \<not> closed c \<longrightarrow>
            trace (final (handleCommandConnect_p1 e s))
              = trace s1 @ [Dialed a,
                            Sent [socksVersion, code, 0, addressType s1, 0, 0, 0, 0, 0, 0],
                            ClientClosed])
       \<and> (\<forall>c. constructRemoteAddress_sg e s = Ok a s2 \<and> conn s2 = Some c \<and> \<not> closed c \<longrightarrow>
            trace (final (handleCommandConnect_sg e s))
              = trace s2 @ [Dialed a, Sent [socksVersion, code, 0, addressType s2, 0, 0, 0],
                            ClientClosed]))"
proof -
  define code where "code = (if Contains msg ''network is unreachable'' then networkUnreachable
                  else if Contains msg ''refused'' then connectionRefused
                  else hostUnreachable)"
  have p1: "reply (final (handleCommandConnect_p1 e s)) = code"
    if c: "constructRemoteAddress_p1 e s = Ok a s1" and n: "conn s1 \<noteq> None"
  proof -
    define s' where "s' = s1\<lparr>remote := None, trace := trace s1 @ [Dialed a]\<rparr>"
    from n obtain c1 where c1: "conn s1 = Some c1"
      by blast
    then have "conn s' \<noteq> None"
      by (simp add: s'_def)
    from final_cwe_p1 [OF this] have
      k: "reply (final (andThen (closeConnectionWithError_p1 r s')
                          (\<lambda>_ s. Ok ([] :: byte list, Some (DialFailed a msg)) s))) = r" for r
      by (metis andThen_Ok final.simps(1))
    have "handleCommandConnect_p1 e s
        = andThen (closeConnectionWithError_p1 code s')
            (\<lambda>_ s. Ok ([], Some (DialFailed a msg)) s)"
      using c c1 assms
      by (simp add: handleCommandConnect_p1_def code_def s'_def update_order)
    then show ?thesis
      by (simp add: k)
  qed
  have sg: "reply (final (handleCommandConnect_sg e s)) = code"
    if c: "constructRemoteAddress_sg e s = Ok a s2"
    using c assms
    by (simp add: handleCommandConnect_sg_def code_def final_andThen_Panic final_cwe_sg)
  have p1t: "trace (final (handleCommandConnect_p1 e s))
              = trace s1 @ [Dialed a,
                            Sent [socksVersion, code, 0, addressType s1, 0, 0, 0, 0, 0, 0],
                            ClientClosed]"
    if "constructRemoteAddress_p1 e s = Ok a s1" "conn s1 = Some c" "\<not> closed c" for c
    using that assms
    by (simp add: handleCommandConnect_p1_def code_def cwe_p1_open socksVersion_def)
  have sgt: "trace (final (handleCommandConnect_sg e s))
              = trace s2 @ [Dialed a, Sent [socksVersion, code, 0, addressType s2, 0, 0, 0],
                            ClientClosed]"
    if "constructRemoteAddress_sg e s = Ok a s2" "conn s2 = Some c" "\<not> closed c" for c
    using that assms
    by (simp add: handleCommandConnect_sg_def code_def cwe_sg_open socksVersion_def)
  from p1 sg p1t sgt show ?thesis
    unfolding Let_def code_def [symmetric] by blast
qed


lemma decimal_80: "decimal 80 = ''80''"
  by (simp add: decimal.simps digit_def)

lemma dotted_10_0_0: "dotted [10, 0, 0, x] = ''10.0.0.'' @ decimal (unat x)"
  by (simp add: dotted_def decimal.simps digit_def)

theorem dial_error_reply_code_witness:
  "dial env_test ''10.0.0.2:80'' = Inl ''dial tcp 10.0.0.2:80: connect: connection refused''
   \<and> constructRemoteAddress_p1 env_test (connect_ipv4 [10, 0, 0, 2])
       = Ok ''10.0.0.2:80'' (connect_ipv4 [10, 0, 0, 2])
   \<and> constructRemoteAddress_sg env_test (connect_ipv4 [10, 0, 0, 2])
       = Ok ''10.0.0.2:80'' (connect_ipv4 [10, 0, 0, 2])
   \<and> conn (connect_ipv4 [10, 0, 0, 2]) = Some (client []) \<and> \<not> closed (client [])
   \<and> reply (final (handleCommandConnect_p1 env_test (connect_ipv4 [10, 0, 0, 2])))
       = connectionRefused
   \<and> reply (final (handleCommandConnect_sg env_test (connect_ipv4 [10, 0, 0, 2])))
       = connectionRefused
   \<and> trace (final (handleCommandConnect_p1 env_test (connect_ipv4 [10, 0, 0, 2])))
       = [Dialed ''10.0.0.2:80'', Sent [5, 5, 0, 1, 0, 0, 0, 0, 0, 0], ClientClosed]
   \<and> trace (final (handleCommandConnect_sg env_test (connect_ipv4 [10, 0, 0, 2])))
       = [Dialed ''10.0.0.2:80'', Sent [5, 5, 0, 1, 0, 0, 0], ClientClosed]"
proof -
  let ?s = "connect_ipv4 [10, 0, 0, 2]"
  let ?msg = "''dial tcp 10.0.0.2:80: connect: connection refused''"
  have d: "dial env_test ''10.0.0.2:80'' = Inl ?msg"
    by (simp add: env_test_def)
  have a: "constructRemoteAddress_p1 env_test ?s = Ok ''10.0.0.2:80'' ?s"
    "constructRemoteAddress_sg env_test ?s = Ok ''10.0.0.2:80'' ?s"
    by (simp_all add: constructRemoteAddress_p1_def constructRemoteAddress_sg_def
        connect_ipv4_def NewProxy_def env_test_def ipv4_def decimal_80 dotted_10_0_0)
      (simp_all add: decimal.simps digit_def)
  have c: "conn ?s = Some (client [])" "\<not> closed (client [])"
    by (simp_all add: connect_ipv4_def NewProxy_def client_def)
  have m: "\<not> Contains ?msg ''network is unreachable''" "Contains ?msg ''refused''"
    by simp_all
  have f: "addressType ?s = 1" "trace ?s = []"
    by (simp_all add: connect_ipv4_def NewProxy_def ipv4_def)
  from dial_error_reply_code [OF d, of ?s ?s ?s] a c m f show ?thesis
    by (simp add: Let_def d socks_consts)
qed

subsection \<open>Resolving a domain name\<close>

lemma dials_append [simp]: "dials (xs @ ys) = dials xs @ dials ys"
  by (induction xs rule: dials.induct) simp_all

lemma replyFrames_append [simp]: "replyFrames (xs @ ys) = replyFrames xs @ replyFrames ys"
  by (induction xs rule: replyFrames.induct) simp_all

lemma replyHeader_Nil [simp]: "\<not> replyHeader []"
  by (simp add: replyHeader_def)

lemma replyHeader_greeting [simp]: "\<not> replyHeader [v, m]"
  by (simp add: replyHeader_def)

lemma replyHeader_frame [simp]: "replyHeader (5 # code # 0 # atyp # rest)"
  by (simp add: replyHeader_def socksVersion_def)

lemma cwe_p1_nil: "conn s = None \<Longrightarrow> closeConnectionWithError_p1 r s = Ok () s"
  by (simp add: closeConnectionWithError_p1_def)

lemma cwe_p1_closed:
  "conn s = Some c \<Longrightarrow> closed c \<Longrightarrow>
   closeConnectionWithError_p1 r s = Ok () (s\<lparr>conn := None, reply := r\<rparr>)"
  by (simp add: closeConnectionWithError_p1_def connWrite_def closeConnection_p1_def
      update_order)

lemma dials_cwe_p1: "dials (trace (final (closeConnectionWithError_p1 r s))) = dials (trace s)"
proof (cases "conn s")
  case None
  then show ?thesis by (simp add: cwe_p1_nil)
next
  case (Some c)
  then show ?thesis
    by (cases "closed c") (simp_all add: cwe_p1_open cwe_p1_closed)
qed

lemma cwe_sg_nil:
  "conn s = None \<Longrightarrow> closeConnectionWithError_sg r s = Panic NilConn (s\<lparr>reply := r\<rparr>)"
  by (simp add: closeConnectionWithError_sg_def connWrite_def)

lemma dials_cwe_sg: "dials (trace (final (closeConnectionWithError_sg r s))) = dials (trace s)"
proof (cases "conn s")
  case None
  then show ?thesis by (simp add: cwe_sg_nil)
next
  case (Some c)
  then show ?thesis
    by (cases "closed c") (simp_all add: cwe_sg_open cwe_sg_closed)
qed

lemma final_andThen_Ok: "final (andThen r (\<lambda>x s. Ok (g x s) s)) = final r"
  by (cases r) simp_all

text \<open>
  Claim C6, as stated, fails: when the first address that the lookup returns is an IPv6
  address, the address type of the session is set to ipv4 all the same, in both files.
\<close>

theorem resolved_ipv6_typed_ipv4:
  "lookupIP env_test (FQDN (connect_domain [118, 54])) = Inr [loopback6]
   \<and> length loopback6 = 16
   \<and> addressType (final (constructRemoteAddress_p1 env_test (connect_domain [118, 54]))) = ipv4
   \<and> addressType (final (constructRemoteAddress_sg env_test (connect_domain [118, 54]))) = ipv4
   \<and> ipv4 \<noteq> ipv6"
  by (simp add: constructRemoteAddress_p1_def constructRemoteAddress_sg_def connect_domain_def
      NewProxy_def env_test_def example_com_def loopback6_def socks_consts)

text \<open>
  Claim C6, amended. For a request with a domain name whose lookup returns at least one
  address, \<open>constructRemoteAddress\<close> of either file returns the text of the first address,
  a colon and the port, and sets the address type to ipv4 whatever the family of that
  address; \<open>handleCommandConnect\<close> then dials exactly this address (in part_001 when the
  client connection is not nil). In part_001, when the lookup fails or returns no address
  and the client connection is open, the reply with code general failure is written, the
  connection is closed and nothing is dialed.
\<close>

theorem domain_name_first_result:
  assumes "addressType s = domainName"
  shows
    "(\<forall>ip ips. lookupIP e (FQDN s) = Inr (ip # ips) \<longrightarrow>
        constructRemoteAddress_p1 e s
          = Ok (ipString e ip @ '':'' @ decimal (unat (port s))) (s\<lparr>addressType := ipv4\<rparr>)
        \<and> constructRemoteAddress_sg e s
          = Ok (ipString e ip @ '':'' @ decimal (unat (port s))) (s\<lparr>addressType := ipv4\<rparr>)
        \<and> (conn s \<noteq> None \<longrightarrow>
             dials (trace (final (handleCommandConnect_p1 e s)))
               = dials (trace s) @ [ipString e ip @ '':'' @ decimal (unat (port s))])
        \<and> dials (trace (final (handleCommandConnect_sg e s)))
             = dials (trace s) @ [ipString e ip @ '':'' @ decimal (unat (port s))])
     \<and> (\<forall>c. (isl (lookupIP e (FQDN s)) \<or> lookupIP e (FQDN s) = Inr []) \<and> conn s = Some c
             \<and> \<not> closed c \<longrightarrow>
           handleCommandConnect_p1 e s
             = Ok ([], Some ClosedEarly)
                  (s\<lparr>conn := None, reply := generalFailure,
                     trace := trace s @ [Sent [socksVersion, generalFailure, 0, domainName,
                                               0, 0, 0, 0, 0, 0], ClientClosed]\<rparr>))"
proof (intro conjI allI impI)
  fix ip ips
  assume l: "lookupIP e (FQDN s) = Inr (ip # ips)"
  let ?a = "ipString e ip @ '':'' @ decimal (unat (port s))"
  show c1: "constructRemoteAddress_p1 e s = Ok ?a (s\<lparr>addressType := ipv4\<rparr>)"
    using assms l by (simp add: constructRemoteAddress_p1_def socks_consts)
  show c2: "constructRemoteAddress_sg e s = Ok ?a (s\<lparr>addressType := ipv4\<rparr>)"
    using assms l by (simp add: constructRemoteAddress_sg_def socks_consts)
  show "dials (trace (final (handleCommandConnect_sg e s))) = dials (trace s) @ [?a]"
  proof (cases "dial e ?a")
    case (Inl msg)
    then show ?thesis
      by (simp add: handleCommandConnect_sg_def c2 Let_def final_andThen_Panic dials_cwe_sg)
  next
    case (Inr r)
    then show ?thesis
      by (simp add: handleCommandConnect_sg_def c2 Let_def)
  qed
  assume n: "conn s \<noteq> None"
  show "dials (trace (final (handleCommandConnect_p1 e s))) = dials (trace s) @ [?a]"
  proof (cases "dial e ?a")
    case (Inl msg)
    with n show ?thesis
      by (simp add: handleCommandConnect_p1_def c1 Let_def final_andThen_Ok dials_cwe_p1)
  next
    case (Inr r)
    with n show ?thesis
      by (simp add: handleCommandConnect_p1_def c1 Let_def)
  qed
next
  fix c
  assume a: "(isl (lookupIP e (FQDN s)) \<or> lookupIP e (FQDN s) = Inr []) \<and> conn s = Some c
             \<and> \<not> closed c"
  then have o: "conn s = Some c" "\<not> closed c"
    by simp_all
  from a have "constructRemoteAddress_p1 e s
      = Ok [] (s\<lparr>conn := None, reply := generalFailure,
                 trace := trace s @ [Sent [socksVersion, generalFailure, 0, domainName,
                                           0, 0, 0, 0, 0, 0], ClientClosed]\<rparr>)"
    using assms o
    by (auto simp: constructRemoteAddress_p1_def cwe_p1_open isl_def socks_consts)
  then show "handleCommandConnect_p1 e s
             = Ok ([], Some ClosedEarly)
                  (s\<lparr>conn := None, reply := generalFailure,
                     trace := trace s @ [Sent [socksVersion, generalFailure, 0, domainName,
                                               0, 0, 0, 0, 0, 0], ClientClosed]\<rparr>)"
    by (simp add: handleCommandConnect_p1_def)
qed


lemma dotted_example: "dotted [93, 184, 216, 34] = ''93.184.216.34''"
  by (simp add: dotted_def decimal.simps digit_def)

theorem domain_name_first_result_witness:
  "addressType (connect_domain example_com) = domainName
   \<and> lookupIP env_test (FQDN (connect_domain example_com)) = Inr ([93, 184, 216, 34] # [])
   \<and> conn (connect_domain example_com) \<noteq> None
   \<and> constructRemoteAddress_p1 env_test (connect_domain example_com)
       = Ok ''93.184.216.34:80'' ((connect_domain example_com)\<lparr>addressType := ipv4\<rparr>)
   \<and> constructRemoteAddress_sg env_test (connect_domain example_com)
       = Ok ''93.184.216.34:80'' ((connect_domain example_com)\<lparr>addressType := ipv4\<rparr>)
   \<and> dials (trace (final (handleCommandConnect_p1 env_test (connect_domain example_com))))
       = [''93.184.216.34:80'']
   \<and> dials (trace (final (handleCommandConnect_sg env_test (connect_domain example_com))))
       = [''93.184.216.34:80'']
   \<and> addressType (connect_domain [110, 111]) = domainName
   \<and> lookupIP env_test (FQDN (connect_domain [110, 111])) = Inr []
   \<and> conn (connect_domain [110, 111]) = Some (client []) \<and> \<not> closed (client [])
   \<and> handleCommandConnect_p1 env_test (connect_domain [110, 111])
       = Ok ([], Some ClosedEarly)
            ((connect_domain [110, 111])
               \<lparr>conn := None, reply := generalFailure,
                trace := [Sent [5, 1, 0, 3, 0, 0, 0, 0, 0, 0], ClientClosed]\<rparr>)"
proof -
  let ?s = "connect_domain example_com"
  let ?t = "connect_domain [110, 111]"
  have a: "addressType ?s = domainName" "addressType ?t = domainName"
    by (simp_all add: connect_domain_def NewProxy_def)
  have l: "lookupIP env_test (FQDN ?s) = Inr ([93, 184, 216, 34] # [])"
    "lookupIP env_test (FQDN ?t) = Inr []"
    by (simp_all add: connect_domain_def NewProxy_def env_test_def example_com_def)
  have c: "conn ?s \<noteq> None" "conn ?t = Some (client [])" "\<not> closed (client [])"
    by (simp_all add: connect_domain_def NewProxy_def client_def)
  have f: "ipString env_test [93, 184, 216, 34] @ '':'' @ decimal (unat (port ?s))
      = ''93.184.216.34:80''"
    by (simp add: env_test_def dotted_example connect_domain_def NewProxy_def)
      (simp add: decimal.simps digit_def)
  have g: "dials (trace ?s) = []" "trace ?t = []"
    by (simp_all add: connect_domain_def NewProxy_def)
  from domain_name_first_result [OF a(1), of env_test] l(1) c(1) f g(1)
  have 1: "constructRemoteAddress_p1 env_test ?s = Ok ''93.184.216.34:80'' (?s\<lparr>addressType := ipv4\<rparr>)"
    "constructRemoteAddress_sg env_test ?s = Ok ''93.184.216.34:80'' (?s\<lparr>addressType := ipv4\<rparr>)"
    "dials (trace (final (handleCommandConnect_p1 env_test ?s))) = [''93.184.216.34:80'']"
    "dials (trace (final (handleCommandConnect_sg env_test ?s))) = [''93.184.216.34:80'']"
    by simp_all
  from domain_name_first_result [OF a(2), of env_test] l(2) c(2,3) g(2)
  have 2: "handleCommandConnect_p1 env_test ?t
       = Ok ([], Some ClosedEarly)
            (?t\<lparr>conn := None, reply := generalFailure,
                trace := [Sent [5, 1, 0, 3, 0, 0, 0, 0, 0, 0], ClientClosed]\<rparr>)"
    by (simp add: socks_consts)
  from a l c 1 2 show ?thesis
    by simp
qed

subsection \<open>Rules for outcomes\<close>

lemma ends_Ok [simp]: "ends Q E (Ok x s) = Q x s"
  by (simp add: ends_def)

lemma ends_Panic [simp]: "ends Q E (Panic p s) = E p s"
  by (simp add: ends_def)

lemma ends_andThen:
  assumes "ends Q E r" and "\<And>x s. Q x s \<Longrightarrow> ends R E (f x s)"
  shows "ends R E (andThen r f)"
  using assms by (cases r) simp_all

lemma ends_mono:
  assumes "ends Q E r" and "\<And>x s. Q x s \<Longrightarrow> Q' x s" and "\<And>p s. E p s \<Longrightarrow> E' p s"
  shows "ends Q' E' r"
  using assms by (cases r) simp_all

lemma ends_never_Ok: "ends Q never r \<Longrightarrow> \<exists>x s. r = Ok x s \<and> Q x s"
  by (cases r) (simp_all add: never_def)


subsection \<open>server.go: a session without an outbound connection\<close>

text \<open>
  Up to the dial nothing in server.go sets \<open>conn\<close> to nil or \<open>remote\<close> to a connection,
  and nothing panics.
\<close>

definition undialed :: "SocksProxy \<Rightarrow> bool" where
  "undialed s = (conn s \<noteq> None \<and> remote s = None)"

lemmas undialed_seq = ends_andThen [where Q = "\<lambda>x. undialed" and E = never]

lemma undialed_connRead:
  "undialed s \<Longrightarrow> ends (\<lambda>x. undialed) never (connRead buf s)"
  by (auto simp: undialed_def connRead_def Let_def)

lemma undialed_connWrite:
  "undialed s \<Longrightarrow> ends (\<lambda>x. undialed) never (connWrite p s)"
  by (auto simp: undialed_def connWrite_def)

lemma undialed_cwe_sg:
  "undialed s \<Longrightarrow> ends (\<lambda>x. undialed) never (closeConnectionWithError_sg r s)"
  by (auto simp: undialed_def closeConnectionWithError_sg_def connWrite_def
      closeConnection_sg_def Let_def)

lemma undialed_getAvailableMethods:
  assumes "undialed s"
  shows "ends (\<lambda>x. undialed) never (getAvailableMethods n s)"
proof -
  from assms obtain c where c: "conn s = Some c"
    by (auto simp: undialed_def)
  show ?thesis
  proof (cases "closed c")
    case True
    with getAvailableMethods_closed [OF c] assms show ?thesis
      by (metis ends_Ok)
  next
    case False
    from getAvailableMethods_open [OF c False, of n] obtain ms c' where
      "getAvailableMethods n s = Ok ms (s\<lparr>conn := Some c'\<rparr>)"
      by blast
    with assms show ?thesis
      by (simp add: undialed_def)
  qed
qed

lemma undialed_ensureVersion_sg:
  "undialed s \<Longrightarrow> ends (\<lambda>x. undialed) never (ensureVersion_sg v s)"
  by (simp add: ensureVersion_sg_def undialed_cwe_sg)

lemma undialed_ensureNMethod_sg:
  "undialed s \<Longrightarrow> ends (\<lambda>x. undialed) never (ensureNMethod_sg n s)"
  by (simp add: ensureNMethod_sg_def undialed_cwe_sg)

lemma undialed_parsePort:
  "undialed s \<Longrightarrow> ends (\<lambda>x. undialed) never (parsePort s)"
  unfolding parsePort_def
  by (intro undialed_seq undialed_connRead) (simp_all add: undialed_def)

lemma undialed_parseAddress_sg:
  assumes "undialed s"
  shows "ends (\<lambda>x. undialed) never (parseAddress_sg s)"
proof -
  have a: "ends (\<lambda>x. undialed) never
      (andThen (connRead buf s) (\<lambda>buf s. Ok () (s\<lparr>IP := buf\<rparr>)))" for buf
    using assms by (intro undialed_seq undialed_connRead) (simp_all add: undialed_def)
  have b: "ends (\<lambda>x. undialed) never
      (andThen (connRead [0] s) (\<lambda>domainLength s.
        andThen (connRead (replicate (unat (domainLength ! 0)) 0) s) (\<lambda>fqdn s.
          Ok () (s\<lparr>FQDN := fqdn\<rparr>))))"
    using assms by (intro undialed_seq undialed_connRead) (simp_all add: undialed_def)
  show ?thesis
    unfolding parseAddress_sg_def using a b assms by (simp add: undialed_cwe_sg)
qed

lemma undialed_greet_sg:
  assumes "undialed s"
  shows "ends (\<lambda>x. undialed) never (handleGreetings_sg s)"
  unfolding handleGreetings_sg_def using assms
  by (intro undialed_seq undialed_connRead undialed_ensureVersion_sg undialed_ensureNMethod_sg
      undialed_getAvailableMethods undialed_connWrite)
    (simp_all add: undialed_def)

lemma undialed_header_sg:
  assumes "undialed s"
  shows "ends (\<lambda>x. undialed) never (handleRequestHeader_sg s)"
  unfolding handleRequestHeader_sg_def using assms
  by (intro undialed_seq undialed_connRead undialed_ensureVersion_sg undialed_parseAddress_sg
      undialed_parsePort)
    (simp_all add: undialed_def)

lemma request_sg:
  "\<exists>s1. handleGreetings_sg (NewProxy c) = Ok () s1
      \<and> handleRequestHeader_sg s1 = Ok () (request_sg c) \<and> undialed (request_sg c)"
proof -
  have "undialed (NewProxy c)"
    by (simp add: undialed_def NewProxy_def)
  from ends_never_Ok [OF undialed_greet_sg [OF this]] obtain s1 where
    1: "handleGreetings_sg (NewProxy c) = Ok () s1" "undialed s1"
    by auto
  from ends_never_Ok [OF undialed_header_sg [OF 1(2)]] obtain s2 where
    2: "handleRequestHeader_sg s1 = Ok () s2" "undialed s2"
    by auto
  from 1 2 show ?thesis
    by (simp add: request_sg_def)
qed


lemma command_cwe_sg: "command (final (closeConnectionWithError_sg r s)) = command s"
  by (cases "conn s")
    (auto simp: closeConnectionWithError_sg_def connWrite_def closeConnection_sg_def Let_def)

lemma undialed_construct_sg:
  assumes "undialed s"
  shows "ends (\<lambda>x. undialed) (\<lambda>p s. True) (constructRemoteAddress_sg e s)"
proof -
  have c: "ends (\<lambda>x. undialed) (\<lambda>p s. True) (closeConnectionWithError_sg r s)" for r
    by (rule ends_mono [OF undialed_cwe_sg [OF assms]]) simp_all
  show ?thesis
    unfolding constructRemoteAddress_sg_def Let_def using assms
    by (auto intro!: ends_andThen [where Q = "\<lambda>x. undialed"] c simp: undialed_def)
qed

text \<open>
  Claim C7. In server.go, with \<open>request_sg c\<close> the session after greeting and request
  header: when the command is not connect, \<open>handle\<close> panics at
  \<open>server.remote.RemoteAddr()\<close> on the nil \<open>remote\<close>; when the command is connect and the
  dial of the constructed address fails, \<open>handle\<close> panics inside \<open>handleCommandConnect\<close> at
  \<open>remote.LocalAddr()\<close>; the latter covers a connect request with an unsupported address
  type, for which the empty address is dialed.
\<close>

theorem handle_sg_nil_remote_panics:
  "(command (request_sg c) \<noteq> connect \<longrightarrow>
      panicked (handle_sg e c) = Some NilRemote_RemoteAddr)
   \<and> (command (request_sg c) = connect
        \<and> constructRemoteAddress_sg e (request_sg c) = Ok a s3 \<and> dial e a = Inl msg \<longrightarrow>
      panicked (handle_sg e c) = Some NilRemote_LocalAddr)
   \<and> (command (request_sg c) = connect
        \<and> addressType (request_sg c) \<noteq> ipv4 \<and> addressType (request_sg c) \<noteq> ipv6
        \<and> addressType (request_sg c) \<noteq> domainName \<and> dial e [] = Inl msg \<longrightarrow>
      panicked (handle_sg e c) = Some NilRemote_LocalAddr)"
proof -
  from request_sg [of c] obtain s1 where
    g: "handleGreetings_sg (NewProxy c) = Ok () s1" and
    h: "handleRequestHeader_sg s1 = Ok () (request_sg c)" and
    u: "undialed (request_sg c)"
    by blast
  let ?s = "request_sg c"
  have body: "handle_body_sg e c
      = andThen (handleRequestCommand_sg e ?s) (\<lambda>(payload, err) s.
        andThen (if length payload > 0 then connWrite payload s else Ok True s) (\<lambda>_ s.
        andThen (doReplyAction_sg e s) (\<lambda>_ s.
          case remote s of
            None \<Rightarrow> Panic NilRemote_RemoteAddr s
          | Some r \<Rightarrow> Ok () (s\<lparr>remote := Some (connClose r),
                               trace := trace s @ [RemoteClosed]\<rparr>))))"
    by (simp add: handle_body_sg_def g h)
  have p: "panicked (handle_sg e c) = Some q" if "handle_body_sg e c = Panic q s'" for q s'
    using that by (simp add: handle_sg_def)
  have a: "panicked (handle_sg e c) = Some NilRemote_RemoteAddr"
    if n: "command ?s \<noteq> connect"
  proof -
    from ends_never_Ok [OF undialed_cwe_sg [OF u, of commandNotSupported]] obtain s4 where
      w: "closeConnectionWithError_sg commandNotSupported ?s = Ok () s4" and u4: "undialed s4"
      by auto
    from command_cwe_sg [of commandNotSupported ?s] w have c4: "command s4 = command ?s"
      by simp
    have "handleRequestCommand_sg e ?s = Ok ([], Some UnsupportedCommand) s4"
      using n w by (simp add: handleRequestCommand_sg_def)
    then have "handle_body_sg e c = Panic NilRemote_RemoteAddr s4"
      using u4 c4 n by (simp add: body doReplyAction_sg_def undialed_def)
    then show ?thesis
      by (rule p)
  qed
  have b: "panicked (handle_sg e c) = Some NilRemote_LocalAddr"
    if k: "command ?s = connect" and r: "constructRemoteAddress_sg e ?s = Ok a' s3'"
      and d: "dial e a' = Inl msg" for a' s3'
  proof -
    from undialed_construct_sg [OF u, of e] r have "undialed s3'"
      by simp
    then have u3: "undialed (s3'\<lparr>remote := None, trace := trace s3' @ [Dialed a']\<rparr>)"
      by (simp add: undialed_def)
    define code where "code = (if Contains msg ''network is unreachable'' then networkUnreachable
                  else if Contains msg ''refused'' then connectionRefused
                  else hostUnreachable)"
    from ends_never_Ok [OF undialed_cwe_sg [OF u3, of code]] obtain s4 where
      w: "closeConnectionWithError_sg code (s3'\<lparr>remote := None,
          trace := trace s3' @ [Dialed a']\<rparr>) = Ok () s4"
      by auto
    have "handleCommandConnect_sg e ?s
        = andThen (closeConnectionWithError_sg code (s3'\<lparr>remote := None,
            trace := trace s3' @ [Dialed a']\<rparr>)) (\<lambda>_ s. Panic NilRemote_LocalAddr s)"
      using r d by (simp add: handleCommandConnect_sg_def Let_def code_def)
    with w have "handleCommandConnect_sg e ?s = Panic NilRemote_LocalAddr s4"
      by simp
    then have "handle_body_sg e c = Panic NilRemote_LocalAddr s4"
      using k by (simp add: body handleRequestCommand_sg_def)
    then show ?thesis
      by (rule p)
  qed
  have b': "panicked (handle_sg e c) = Some NilRemote_LocalAddr"
    if k: "command ?s = connect" and t: "addressType ?s \<noteq> ipv4" "addressType ?s \<noteq> ipv6"
      "addressType ?s \<noteq> domainName" and d: "dial e [] = Inl msg"
  proof -
    from ends_never_Ok [OF undialed_cwe_sg [OF u, of addressTypeNotSupported]] obtain s4 where
      "closeConnectionWithError_sg addressTypeNotSupported ?s = Ok () s4"
      by auto
    with t have "constructRemoteAddress_sg e ?s = Ok [] s4"
      by (simp add: constructRemoteAddress_sg_def)
    from b [OF k this d] show ?thesis .
  qed
  from a b b' show ?thesis
    by blast
qed


lemmas eval_common =
  NewProxy_def client_def connRead_def connWrite_def connClose_def getAvailableMethods_def
  getAvailableMethods_loop.simps parsePort_def socks_consts

lemmas eval_sg =
  handleGreetings_sg_def handleRequestHeader_sg_def ensureVersion_sg_def ensureNMethod_sg_def
  parseAddress_sg_def closeConnectionWithError_sg_def closeConnection_sg_def
  generateFailedReply_sg_def generateSucceededReply_sg_def generateReply_sg_def

theorem handle_sg_nil_remote_panics_witness:
  "command (request_sg (client [5, 1, 0, 5, 2, 0, 1, 127, 0, 0, 1, 0, 80])) \<noteq> connect
   \<and> panicked (handle_sg env_test (client [5, 1, 0, 5, 2, 0, 1, 127, 0, 0, 1, 0, 80]))
       = Some NilRemote_RemoteAddr
   \<and> command (request_sg (client [5, 1, 0, 5, 1, 0, 1, 10, 0, 0, 2, 0, 80])) = connect
   \<and> constructRemoteAddress_sg env_test (request_sg (client [5, 1, 0, 5, 1, 0, 1, 10, 0, 0, 2, 0, 80]))
       = Ok ''10.0.0.2:80'' (request_sg (client [5, 1, 0, 5, 1, 0, 1, 10, 0, 0, 2, 0, 80]))
   \<and> dial env_test ''10.0.0.2:80'' = Inl ''dial tcp 10.0.0.2:80: connect: connection refused''
   \<and> panicked (handle_sg env_test (client [5, 1, 0, 5, 1, 0, 1, 10, 0, 0, 2, 0, 80]))
       = Some NilRemote_LocalAddr
   \<and> command (request_sg (client [5, 1, 0, 5, 1, 0, 9])) = connect
   \<and> addressType (request_sg (client [5, 1, 0, 5, 1, 0, 9])) = 9
   \<and> dial env_test [] = Inl ''dial tcp: i/o timeout''
   \<and> panicked (handle_sg env_test (client [5, 1, 0, 5, 1, 0, 9])) = Some NilRemote_LocalAddr"
proof -
  let ?b = "client [5, 1, 0, 5, 2, 0, 1, 127, 0, 0, 1, 0, 80]"
  let ?c = "client [5, 1, 0, 5, 1, 0, 1, 10, 0, 0, 2, 0, 80]"
  let ?d = "client [5, 1, 0, 5, 1, 0, 9]"
  have rb: "command (request_sg ?b) = 2"
    by (simp add: request_sg_def eval_common eval_sg)
  have rc: "request_sg ?c = (NewProxy (client []))\<lparr>command := 1, addressType := 1,
      IP := [10, 0, 0, 2], port := 80, methods := [0], trace := [Sent [5, 0]]\<rparr>"
    by (simp add: request_sg_def eval_common eval_sg)
  have rd: "command (request_sg ?d) = 1" "addressType (request_sg ?d) = 9"
    by (simp_all add: request_sg_def eval_common eval_sg)
  have cc: "constructRemoteAddress_sg env_test (request_sg ?c) = Ok ''10.0.0.2:80'' (request_sg ?c)"
    by (simp add: rc constructRemoteAddress_sg_def env_test_def NewProxy_def ipv4_def
        dotted_10_0_0 decimal_80)
      (simp add: decimal.simps digit_def)
  have dl: "dial env_test ''10.0.0.2:80'' = Inl ''dial tcp 10.0.0.2:80: connect: connection refused''"
    "dial env_test [] = Inl ''dial tcp: i/o timeout''"
    by (simp_all add: env_test_def)
  from handle_sg_nil_remote_panics [of ?b env_test] rb
  have 1: "panicked (handle_sg env_test ?b) = Some NilRemote_RemoteAddr"
    by (simp add: connect_def)
  from handle_sg_nil_remote_panics [of ?c env_test] rc cc dl(1)
  have 2: "panicked (handle_sg env_test ?c) = Some NilRemote_LocalAddr"
    by (simp add: connect_def)
  from handle_sg_nil_remote_panics [of ?d env_test] rd dl(2)
  have 3: "panicked (handle_sg env_test ?d) = Some NilRemote_LocalAddr"
    by (simp add: socks_consts)
  from rb rc rd cc dl 1 2 3 show ?thesis
    by (simp add: connect_def)
qed

subsection \<open>A request with a command other than connect\<close>

lemma header_p1_ok:
  assumes "conn s = Some c" "\<not> closed c" "input c = 5 # cmd # rsv # atyp # rest"
    "atyp = ipv4 \<or> atyp = domainName \<or> atyp = ipv6"
  shows "\<exists>s'. handleRequestHeader_p1 s = Ok None s' \<and> (\<exists>c'. conn s' = Some c' \<and> \<not> closed c')
    \<and> command s' = cmd \<and> addressType s' = atyp \<and> trace s' = trace s \<and> remote s' = remote s"
proof -
  define s1 where "s1 = s\<lparr>conn := Some (c\<lparr>input := rest\<rparr>), command := cmd, addressType := atyp\<rparr>"
  have h: "handleRequestHeader_p1 s
      = andThen (parseAddress_p1 s1) (\<lambda>_ s.
             if conn s = None then Ok (Some (InvalidAddressType ([5, cmd, rsv, atyp] ! 3))) s
             else andThen (parsePort s) (\<lambda>_ s. Ok None s))"
    using assms(1-3)
    by (simp add: handleRequestHeader_p1_def ensureVersion_p1_def connRead_def s1_def
        socksVersion_def)
  have s1: "conn s1 = Some (c\<lparr>input := rest\<rparr>)" "addressType s1 = atyp"
    by (simp_all add: s1_def)
  have "\<exists>s2 c2. parseAddress_p1 s1 = Ok () s2 \<and> conn s2 = Some c2 \<and> \<not> closed c2
      \<and> command s2 = cmd \<and> addressType s2 = atyp \<and> trace s2 = trace s \<and> remote s2 = remote s"
    using assms(2,4) s1
    by (auto simp: parseAddress_p1_def connRead_def Let_def s1_def socks_consts)
  then obtain s2 c2 where p: "parseAddress_p1 s1 = Ok () s2" and
    s2: "conn s2 = Some c2" "\<not> closed c2" "command s2 = cmd" "addressType s2 = atyp"
      "trace s2 = trace s" "remote s2 = remote s"
    by blast
  have "\<exists>s3 c3. parsePort s2 = Ok () s3 \<and> conn s3 = Some c3 \<and> \<not> closed c3
      \<and> command s3 = cmd \<and> addressType s3 = atyp \<and> trace s3 = trace s \<and> remote s3 = remote s"
    using s2 by (simp add: parsePort_def connRead_def Let_def)
  then show ?thesis
    using s2 by (auto simp: h p)
qed

lemma header_sg_ok:
  assumes "conn s = Some c" "\<not> closed c" "input c = 5 # cmd # rsv # atyp # rest"
    "atyp = ipv4 \<or> atyp = domainName \<or> atyp = ipv6"
  shows "\<exists>s'. handleRequestHeader_sg s = Ok () s' \<and> (\<exists>c'. conn s' = Some c' \<and> \<not> closed c')
    \<and> command s' = cmd \<and> addressType s' = atyp \<and> trace s' = trace s \<and> remote s' = remote s"
proof -
  define s1 where "s1 = s\<lparr>conn := Some (c\<lparr>input := rest\<rparr>), command := cmd, addressType := atyp\<rparr>"
  have h: "handleRequestHeader_sg s = andThen (parseAddress_sg s1) (\<lambda>_ s. parsePort s)"
    using assms(1-3)
    by (simp add: handleRequestHeader_sg_def ensureVersion_sg_def connRead_def s1_def
        socksVersion_def)
  have s1: "conn s1 = Some (c\<lparr>input := rest\<rparr>)" "addressType s1 = atyp"
    by (simp_all add: s1_def)
  have "\<exists>s2 c2. parseAddress_sg s1 = Ok () s2 \<and> conn s2 = Some c2 \<and> \<not> closed c2
      \<and> command s2 = cmd \<and> addressType s2 = atyp \<and> trace s2 = trace s \<and> remote s2 = remote s"
    using assms(2,4) s1
    by (auto simp: parseAddress_sg_def connRead_def Let_def s1_def socks_consts)
  then obtain s2 c2 where p: "parseAddress_sg s1 = Ok () s2" and
    s2: "conn s2 = Some c2" "\<not> closed c2" "command s2 = cmd" "addressType s2 = atyp"
      "trace s2 = trace s" "remote s2 = remote s"
    by blast
  have "\<exists>s3 c3. parsePort s2 = Ok () s3 \<and> conn s3 = Some c3 \<and> \<not> closed c3
      \<and> command s3 = cmd \<and> addressType s3 = atyp \<and> trace s3 = trace s \<and> remote s3 = remote s"
    using s2 by (simp add: parsePort_def connRead_def Let_def)
  then show ?thesis
    using s2 by (auto simp: h p)
qed

lemma command_p1_unsupported:
  assumes "conn s = Some c" "\<not> closed c" "command s \<noteq> connect"
  shows "handleRequestCommand_p1 e s
    = Ok ([], Some (UnsupportedCommandNo (command s)))
        (s\<lparr>conn := None, reply := commandNotSupported,
           trace := trace s @ [Sent [5, commandNotSupported, 0, addressType s, 0, 0, 0, 0, 0, 0],
                               ClientClosed]\<rparr>)"
  using assms by (simp add: handleRequestCommand_p1_def cwe_p1_open)

lemma command_sg_unsupported:
  assumes "conn s = Some c" "\<not> closed c" "command s \<noteq> connect"
  shows "handleRequestCommand_sg e s
    = Ok ([], Some UnsupportedCommand)
        (s\<lparr>conn := Some (connClose c), reply := commandNotSupported,
           trace := trace s @ [Sent [5, commandNotSupported, 0, addressType s, 0, 0, 0],
                               ClientClosed]\<rparr>)"
  using assms by (simp add: handleRequestCommand_sg_def cwe_sg_open)

text \<open>
  The request header is checked before the command is looked at. A request whose address
  type is not supported is answered there with code 08 and the connection is closed, so
  it does not reach \<open>handleRequestCommand\<close> on an open connection: part_001 returns, and
  in server.go the write of a further reply on the closed connection fails.
\<close>

lemma bind_unknown_address_type_reply_08:
  "trace (final (handle_p1 env_test (client [5, 1, 0, 5, 2, 0, 9])))
     = [Sent [5, 0], Sent [5, 8, 0, 9, 0, 0, 0, 0, 0, 0], ClientClosed]
   \<and> trace (final (handle_sg env_test (client [5, 1, 0, 5, 2, 0, 9])))
     = [Sent [5, 0], Sent [5, 8, 0, 9, 0, 0, 0], ClientClosed]"
  by (simp add: handle_p1_def handle_body_p1_def handle_sg_def handle_body_sg_def
      handleGreetings_p1_def handleRequestHeader_p1_def ensureVersion_p1_def
      ensureNMethod_p1_def parseAddress_p1_def closeConnectionWithError_p1_def
      closeConnection_p1_def generateFailedReply_p1_def generateReply_p1_def IsValid_def
      zeroAddrPort_def handleRequestCommand_sg_def doReplyAction_sg_def
      eval_common eval_sg)

text \<open>
  A whole session on an open connection whose greeting is valid and whose request has
  version 5, a supported address type (ipv4, domain name or ipv6) and a command byte
  other than connect: the one reply written has code 07, the client connection is then
  closed, and nothing is dialed. This holds in both files.
\<close>

lemma unsupported_command_session:
  assumes "\<not> closed c"
    and "input c = [socksVersion, nmethods] @ ms @ [socksVersion, cmd, rsv, atyp] @ rest"
    and "1 \<le> nmethods" and "length ms = unat nmethods"
    and "atyp = ipv4 \<or> atyp = domainName \<or> atyp = ipv6"
    and "cmd \<noteq> connect"
  shows "trace (final (handle_p1 e c))
           = [Sent [socksVersion, noAuth],
              Sent [socksVersion, commandNotSupported, 0, atyp, 0, 0, 0, 0, 0, 0], ClientClosed]
       \<and> trace (final (handle_sg e c))
           = [Sent [socksVersion, noAuth],
              Sent [socksVersion, commandNotSupported, 0, atyp, 0, 0, 0], ClientClosed]
       \<and> dials (trace (final (handle_p1 e c))) = []
       \<and> dials (trace (final (handle_sg e c))) = []"
proof -
  let ?s0 = "NewProxy c"
  let ?c1 = "c\<lparr>input := 5 # cmd # rsv # atyp # rest\<rparr>"
  let ?s1 = "?s0\<lparr>conn := Some ?c1, methods := ms, trace := [Sent [5, 0]]\<rparr>"
  have i: "input c = 5 # nmethods # (ms @ [5, cmd, rsv, atyp] @ rest)"
    using assms(2) by (simp add: socksVersion_def)
  have c0: "conn ?s0 = Some c"
    by (simp add: NewProxy_def)
  have nz: "nmethods \<noteq> 0"
    using assms(3) by (simp add: byte_ge_1)
  have len: "unat nmethods \<le> length (ms @ [5, cmd, rsv, atyp] @ rest)"
    using assms(4) by simp
  have g1: "handleGreetings_p1 ?s0 = Ok None ?s1"
    using greet_p1_methods [OF c0 assms(1) i nz len] assms(4)
    by (simp add: NewProxy_def)
  have g2: "handleGreetings_sg ?s0 = Ok () ?s1"
    using greet_sg_methods [OF c0 assms(1) i nz len] assms(4)
    by (simp add: NewProxy_def)
  have c1: "conn ?s1 = Some ?c1" "\<not> closed ?c1" "input ?c1 = 5 # cmd # rsv # atyp # rest"
    using assms(1) by simp_all
  from header_p1_ok [OF c1 assms(5)] obtain s2 c2 where
    h1: "handleRequestHeader_p1 ?s1 = Ok None s2" and
    s2: "conn s2 = Some c2" "\<not> closed c2" "command s2 = cmd" "addressType s2 = atyp"
      "trace s2 = [Sent [5, 0]]"
    by auto
  from header_sg_ok [OF c1 assms(5)] obtain t2 d2 where
    h2: "handleRequestHeader_sg ?s1 = Ok () t2" and
    t2: "conn t2 = Some d2" "\<not> closed d2" "command t2 = cmd" "addressType t2 = atyp"
      "trace t2 = [Sent [5, 0]]" "remote t2 = None"
    by (auto simp: NewProxy_def)
  have n1: "command s2 \<noteq> connect" and n2: "command t2 \<noteq> connect"
    using assms(6) s2(3) t2(3) by simp_all
  have p: "trace (final (handle_p1 e c))
           = [Sent [socksVersion, noAuth],
              Sent [socksVersion, commandNotSupported, 0, atyp, 0, 0, 0, 0, 0, 0], ClientClosed]"
    using s2
    by (simp add: handle_p1_def handle_body_p1_def g1 h1
        command_p1_unsupported [OF s2(1,2) n1] closeConnection_p1_def socksVersion_def
        noAuth_def)
  have q: "trace (final (handle_sg e c))
           = [Sent [socksVersion, noAuth],
              Sent [socksVersion, commandNotSupported, 0, atyp, 0, 0, 0], ClientClosed]"
    using t2 n2
    by (simp add: handle_sg_def handle_body_sg_def g2 h2
        command_sg_unsupported [OF t2(1,2) n2] doReplyAction_sg_def closeConnection_sg_def
        connClose_def socksVersion_def noAuth_def)
  from p q show ?thesis
    by simp
qed


text \<open>
  Claim C9. A request with a command byte other than connect (bind 02, udp associate 03
  or any other value) is answered with code 07 (command not supported), the client
  connection is closed, and nothing is dialed. First for \<open>handleRequestCommand\<close> of both
  files, on every session that reaches it with an open client connection: it writes the
  one frame with code 07, closes the connection, dials nothing and returns the error for
  an unsupported command. Then for the whole session of \<open>handle\<close>, from the accepted
  connection on: after a valid greeting, a request with version 5, a supported address
  type and such a command byte gets the reply with code 07 as its only reply.
\<close>

theorem unsupported_command_reply_07:
  assumes "cmd \<noteq> connect"
  shows "(conn s = Some k \<and> \<not> closed k \<and> command s = cmd \<longrightarrow>
            handleRequestCommand_p1 e s
              = Ok ([], Some (UnsupportedCommandNo cmd))
                  (s\<lparr>conn := None, reply := commandNotSupported,
                     trace := trace s @ [Sent [socksVersion, commandNotSupported, 0,
                                               addressType s, 0, 0, 0, 0, 0, 0],
                                         ClientClosed]\<rparr>)
          \<and> handleRequestCommand_sg e s
              = Ok ([], Some UnsupportedCommand)
                  (s\<lparr>conn := Some (connClose k), reply := commandNotSupported,
                     trace := trace s @ [Sent [socksVersion, commandNotSupported, 0,
                                               addressType s, 0, 0, 0],
                                         ClientClosed]\<rparr>))
       \<and> (\<not> closed c
          \<and> input c = [socksVersion, nmethods] @ ms @ [socksVersion, cmd, rsv, atyp] @ rest
          \<and> 1 \<le> nmethods \<and> length ms = unat nmethods
          \<and> (atyp = ipv4 \<or> atyp = domainName \<or> atyp = ipv6) \<longrightarrow>
            trace (final (handle_p1 e c))
              = [Sent [socksVersion, noAuth],
                 Sent [socksVersion, commandNotSupported, 0, atyp, 0, 0, 0, 0, 0, 0], ClientClosed]
          \<and> trace (final (handle_sg e c))
              = [Sent [socksVersion, noAuth],
                 Sent [socksVersion, commandNotSupported, 0, atyp, 0, 0, 0], ClientClosed]
          \<and> dials (trace (final (handle_p1 e c))) = []
          \<and> dials (trace (final (handle_sg e c))) = [])"
proof (intro conjI impI)
  assume h: "conn s = Some k \<and> \<not> closed k \<and> command s = cmd"
  then have n: "command s \<noteq> connect"
    using assms by simp
  from h have k: "conn s = Some k" "\<not> closed k" "command s = cmd"
    by simp_all
  show "handleRequestCommand_p1 e s
      = Ok ([], Some (UnsupportedCommandNo cmd))
          (s\<lparr>conn := None, reply := commandNotSupported,
             trace := trace s @ [Sent [socksVersion, commandNotSupported, 0,
                                       addressType s, 0, 0, 0, 0, 0, 0],
                                 ClientClosed]\<rparr>)"
    using command_p1_unsupported [OF k(1,2) n, of e] k(3) by (simp add: socksVersion_def)
  show "handleRequestCommand_sg e s
      = Ok ([], Some UnsupportedCommand)
          (s\<lparr>conn := Some (connClose k), reply := commandNotSupported,
             trace := trace s @ [Sent [socksVersion, commandNotSupported, 0,
                                       addressType s, 0, 0, 0],
                                 ClientClosed]\<rparr>)"
    using command_sg_unsupported [OF k(1,2) n, of e] by (simp add: socksVersion_def)
next
  assume h: "\<not> closed c
      \<and> input c = [socksVersion, nmethods] @ ms @ [socksVersion, cmd, rsv, atyp] @ rest
      \<and> 1 \<le> nmethods \<and> length ms = unat nmethods
      \<and> (atyp = ipv4 \<or> atyp = domainName \<or> atyp = ipv6)"
  then have a: "\<not> closed c"
    "input c = [socksVersion, nmethods] @ ms @ [socksVersion, cmd, rsv, atyp] @ rest"
    "1 \<le> nmethods" "length ms = unat nmethods"
    "atyp = ipv4 \<or> atyp = domainName \<or> atyp = ipv6"
    by simp_all
  note t = unsupported_command_session [OF a assms, of e]
  from t show "trace (final (handle_p1 e c))
      = [Sent [socksVersion, noAuth],
         Sent [socksVersion, commandNotSupported, 0, atyp, 0, 0, 0, 0, 0, 0], ClientClosed]"
    by simp
  from t show "trace (final (handle_sg e c))
      = [Sent [socksVersion, noAuth],
         Sent [socksVersion, commandNotSupported, 0, atyp, 0, 0, 0], ClientClosed]"
    by simp
  from t show "dials (trace (final (handle_p1 e c))) = []"
    by simp
  from t show "dials (trace (final (handle_sg e c))) = []"
    by simp
qed

theorem unsupported_command_reply_07_witness:
  "bind_cmd \<noteq> connect
   \<and> conn bind_request = Some (client []) \<and> \<not> closed (client [])
   \<and> command bind_request = bind_cmd
   \<and> trace (final (handleRequestCommand_p1 env_test bind_request))
       = [Sent [5, 7, 0, 1, 0, 0, 0, 0, 0, 0], ClientClosed]
   \<and> conn (final (handleRequestCommand_p1 env_test bind_request)) = None
   \<and> trace (final (handleRequestCommand_sg env_test bind_request))
       = [Sent [5, 7, 0, 1, 0, 0, 0], ClientClosed]
   \<and> conn (final (handleRequestCommand_sg env_test bind_request))
       = Some (connClose (client []))
   \<and> input (client [5, 1, 0, 5, 2, 0, 1, 127, 0, 0, 1, 0, 80])
       = [socksVersion, 1] @ [0] @ [socksVersion, bind_cmd, 0, ipv4] @ [127, 0, 0, 1, 0, 80]
   \<and> (1 :: byte) \<le> 1 \<and> length [0 :: byte] = unat (1 :: byte)
   \<and> trace (final (handle_p1 env_test (client [5, 1, 0, 5, 2, 0, 1, 127, 0, 0, 1, 0, 80])))
       = [Sent [5, 0], Sent [5, 7, 0, 1, 0, 0, 0, 0, 0, 0], ClientClosed]
   \<and> trace (final (handle_sg env_test (client [5, 1, 0, 5, 2, 0, 1, 127, 0, 0, 1, 0, 80])))
       = [Sent [5, 0], Sent [5, 7, 0, 1, 0, 0, 0], ClientClosed]
   \<and> dials (trace (final (handle_p1 env_test (client [5, 1, 0, 5, 2, 0, 1, 127, 0, 0, 1, 0, 80]))))
       = []
   \<and> dials (trace (final (handle_sg env_test (client [5, 1, 0, 5, 2, 0, 1, 127, 0, 0, 1, 0, 80]))))
       = []"
proof -
  let ?c = "client [5, 1, 0, 5, 2, 0, 1, 127, 0, 0, 1, 0, 80]"
  have n: "bind_cmd \<noteq> connect"
    by (simp add: socks_consts)
  have b: "conn bind_request = Some (client [])" "\<not> closed (client [])"
    "command bind_request = bind_cmd" "addressType bind_request = 1" "trace bind_request = []"
    by (simp_all add: bind_request_def NewProxy_def client_def socks_consts)
  have h: "\<not> closed ?c"
    "input ?c = [socksVersion, 1] @ [0] @ [socksVersion, bind_cmd, 0, ipv4] @ [127, 0, 0, 1, 0, 80]"
    "(1 :: byte) \<le> 1" "length [0 :: byte] = unat (1 :: byte)"
    "ipv4 = ipv4 \<or> ipv4 = domainName \<or> ipv4 = ipv6"
    by (simp_all add: client_def socks_consts)
  note t = unsupported_command_reply_07 [OF n, of bind_request "client []" env_test ?c 1 "[0]"
      0 ipv4 "[127, 0, 0, 1, 0, 80]"]
  from t b have f: "trace (final (handleRequestCommand_p1 env_test bind_request))
       = [Sent [5, 7, 0, 1, 0, 0, 0, 0, 0, 0], ClientClosed]"
    "conn (final (handleRequestCommand_p1 env_test bind_request)) = None"
    "trace (final (handleRequestCommand_sg env_test bind_request))
       = [Sent [5, 7, 0, 1, 0, 0, 0], ClientClosed]"
    "conn (final (handleRequestCommand_sg env_test bind_request))
       = Some (connClose (client []))"
    by (simp_all add: socks_consts)
  from t h have g: "trace (final (handle_p1 env_test ?c))
       = [Sent [5, 0], Sent [5, 7, 0, 1, 0, 0, 0, 0, 0, 0], ClientClosed]"
    "trace (final (handle_sg env_test ?c))
       = [Sent [5, 0], Sent [5, 7, 0, 1, 0, 0, 0], ClientClosed]"
    "dials (trace (final (handle_p1 env_test ?c))) = []"
    "dials (trace (final (handle_sg env_test ?c))) = []"
    by (simp_all add: socks_consts)
  from n b(1-3) h(2-4) f g show ?thesis
    by simp
qed

subsection \<open>The failure reply\<close>

lemmas eval_p1 =
  handleGreetings_p1_def handleRequestHeader_p1_def ensureVersion_p1_def ensureNMethod_p1_def
  parseAddress_p1_def closeConnectionWithError_p1_def closeConnection_p1_def
  generateFailedReply_p1_def generateSucceededReply_p1_def generateReply_p1_def IsValid_def
  zeroAddrPort_def TCPAddr_AddrPort_def

text \<open>
  Claim C4 at two inputs. In part_001 a bind request that names a domain is answered with
  a frame whose address type byte is 03, the type of the request, followed by the four
  zero bytes and the port. In server.go a bind request for an IPv4 address is answered
  with a frame of seven bytes: a single zero byte stands where the four address bytes
  should be.
\<close>

theorem failure_reply_frames:
  "trace (final (handle_p1 env_test (client [5, 1, 0, 5, 2, 0, 3, 1, 65, 0, 80])))
     = [Sent [5, 0], Sent [5, 7, 0, 3, 0, 0, 0, 0, 0, 0], ClientClosed]
   \<and> trace (final (handle_sg env_test (client [5, 1, 0, 5, 2, 0, 1, 127, 0, 0, 1, 0, 80])))
     = [Sent [5, 0], Sent [5, 7, 0, 1, 0, 0, 0], ClientClosed]"
  by (simp add: handle_p1_def handle_body_p1_def handle_sg_def handle_body_sg_def
      handleRequestCommand_p1_def handleRequestCommand_sg_def doReplyAction_sg_def
      eval_common eval_p1 eval_sg)

subsection \<open>One reply for each session\<close>




























lemma replyFrames_Dialed [simp]: "replyFrames (tr @ [Dialed a]) = replyFrames tr"
  by simp






















































subsection \<open>The relay\<close>

definition joined_p1 :: "relay_p1 \<Rightarrow> bool" where
  "joined_p1 s =
     (wg s = (if up s = Finished then 0 else 1) + (if down s = Finished then 0 else 1)
      \<and> (up s = HalfClosed \<or> up s = Finished \<longrightarrow> remoteCloseWrite s)
      \<and> (down s = HalfClosed \<or> down s = Finished \<longrightarrow> clientCloseWrite s)
      \<and> (returned s \<noteq> None \<longrightarrow> returned s = Some None \<and> wg s = 0))"

lemma joined_p1_start: "joined_p1 start_p1"
  by (simp add: joined_p1_def start_p1_def)

lemma joined_p1_step: "step_p1 s s' \<Longrightarrow> joined_p1 s \<Longrightarrow> joined_p1 s'"
  by (induction rule: step_p1.induct) (auto simp: joined_p1_def split: if_splits)

lemma joined_p1_reachable: "step_p1\<^sup>*\<^sup>* start_p1 s \<Longrightarrow> joined_p1 s"
  by (induction rule: rtranclp_induct) (auto intro: joined_p1_start joined_p1_step)

lemma step_p1_up_only:
  "step_p1 s s' \<Longrightarrow> up s' \<noteq> up s \<Longrightarrow> down s' = down s \<and> returned s' = returned s"
  by (induction rule: step_p1.induct) simp_all

lemma step_p1_down_only:
  "step_p1 s s' \<Longrightarrow> down s' \<noteq> down s \<Longrightarrow> up s' = up s \<and> returned s' = returned s"
  by (induction rule: step_p1.induct) simp_all

text \<open>
  In server.go every finished direction has sent one value, which is still in the channel
  or was received as nil (a round) or as the error returned.
\<close>

definition counted_sg :: "relay_sg \<Rightarrow> bool" where
  "counted_sg t =
     ((if up t = Finished then 1 else 0) + (if down t = Finished then 1 else 0)
        = length (errCh t) + rounds t
          + (case returned t of Some (Some e) \<Rightarrow> 1 | Some None \<Rightarrow> 0 | None \<Rightarrow> (0 :: nat))
      \<and> (returned t = Some None \<longrightarrow> 2 \<le> rounds t)
      \<and> \<not> remoteCloseWrite t \<and> \<not> clientCloseWrite t)"

lemma counted_sg_start: "counted_sg start_sg"
  by (simp add: counted_sg_def start_sg_def)

lemma counted_sg_step: "step_sg t t' \<Longrightarrow> counted_sg t \<Longrightarrow> counted_sg t'"
  by (induction rule: step_sg.induct) (auto simp: counted_sg_def split: if_splits)

lemma counted_sg_reachable: "step_sg\<^sup>*\<^sup>* start_sg t \<Longrightarrow> counted_sg t"
  by (induction rule: rtranclp_induct) (auto intro: counted_sg_start counted_sg_step)

lemma sg_error_run:
  "step_sg\<^sup>*\<^sup>* start_sg
     \<lparr>up = Finished, down = Copying, remoteCloseWrite = False, clientCloseWrite = False,
      returned = Some (Some ''read: connection reset by peer''), errCh = [], rounds = 0\<rparr>"
proof -
  let ?e = "''read: connection reset by peer''"
  have 1: "step_sg start_sg (start_sg\<lparr>up := Copied (Some ?e)\<rparr>)"
    by (rule up_copied_sg) (simp add: start_sg_def)
  have 2: "step_sg (start_sg\<lparr>up := Copied (Some ?e)\<rparr>)
      ((start_sg\<lparr>up := Copied (Some ?e)\<rparr>)\<lparr>up := Finished,
         errCh := errCh (start_sg\<lparr>up := Copied (Some ?e)\<rparr>) @ [Some ?e]\<rparr>)"
    by (rule up_send) (simp_all add: start_sg_def)
  let ?t2 = "start_sg\<lparr>up := Finished, errCh := [Some ?e]\<rparr>"
  have 3: "step_sg ?t2 (?t2\<lparr>returned := Some (Some ?e), errCh := []\<rparr>)"
    by (rule receive_error) (simp_all add: start_sg_def)
  from 2 have 4: "step_sg (start_sg\<lparr>up := Copied (Some ?e)\<rparr>) ?t2"
    by (simp add: start_sg_def)
  from 1 4 3 have "step_sg\<^sup>*\<^sup>* start_sg (?t2\<lparr>returned := Some (Some ?e), errCh := []\<rparr>)"
    by (meson rtranclp.rtrancl_into_rtrancl rtranclp.rtrancl_refl)
  then show ?thesis
    by (simp add: start_sg_def)
qed


lemma p1_full_run:
  "step_p1\<^sup>*\<^sup>* start_p1
     \<lparr>up = Finished, down = Finished, remoteCloseWrite = True, clientCloseWrite = True,
      returned = Some None, wg = 0\<rparr>"
proof -
  let ?e = "''read: connection reset by peer''"
  let ?s1 = "start_p1\<lparr>up := Copied (Some ?e)\<rparr>"
  let ?s2 = "start_p1\<lparr>up := HalfClosed, remoteCloseWrite := True\<rparr>"
  let ?s3 = "start_p1\<lparr>up := Finished, remoteCloseWrite := True, wg := 1\<rparr>"
  let ?s4 = "start_p1\<lparr>up := Finished, down := Copied None, remoteCloseWrite := True, wg := 1\<rparr>"
  let ?s5 = "start_p1\<lparr>up := Finished, down := HalfClosed, remoteCloseWrite := True,
      clientCloseWrite := True, wg := 1\<rparr>"
  let ?s6 = "start_p1\<lparr>up := Finished, down := Finished, remoteCloseWrite := True,
      clientCloseWrite := True, wg := 0\<rparr>"
  let ?s7 = "start_p1\<lparr>up := Finished, down := Finished, remoteCloseWrite := True,
      clientCloseWrite := True, returned := Some None, wg := 0\<rparr>"
  have 1: "step_p1 start_p1 ?s1"
    by (rule up_copied) (simp add: start_p1_def)
  have 2: "step_p1 ?s1 ?s2"
    using up_closeWrite [of ?s1 "Some ?e"] by (simp add: start_p1_def)
  have 3: "step_p1 ?s2 ?s3"
    using up_done [of ?s2] by (simp add: start_p1_def)
  have 4: "step_p1 ?s3 ?s4"
    using down_copied [of ?s3 None] by (simp add: start_p1_def)
  have 5: "step_p1 ?s4 ?s5"
    using down_closeWrite [of ?s4 None] by (simp add: start_p1_def)
  have 6: "step_p1 ?s5 ?s6"
    using down_done [of ?s5] by (simp add: start_p1_def)
  have 7: "step_p1 ?s6 ?s7"
    using wait_return [of ?s6] by (simp add: start_p1_def)
  from 1 2 3 4 5 6 7 have "step_p1\<^sup>*\<^sup>* start_p1 ?s7"
    by (meson rtranclp.rtrancl_into_rtrancl rtranclp.rtrancl_refl)
  then show ?thesis
    by (simp add: start_p1_def)
qed

text \<open>
  Claim C2, as stated, fails on server.go: \<open>exchange\<close> can return the error of the
  direction \<open>up\<close> while the direction \<open>down\<close> is still inside \<open>io.Copy\<close>, and the finished
  direction has not called \<open>CloseWrite\<close> on its destination.
\<close>

theorem exchange_sg_returns_at_first_error:
  "step_sg\<^sup>*\<^sup>* start_sg
     \<lparr>up = Finished, down = Copying, remoteCloseWrite = False, clientCloseWrite = False,
      returned = Some (Some ''read: connection reset by peer''), errCh = [], rounds = 0\<rparr>"
  by (rule sg_error_run)

text \<open>
  Claim C2, amended. In part_001: when \<open>exchange\<close> has returned (it returns nil), both
  directions have finished; a direction that has finished has called \<open>CloseWrite\<close> on its
  destination, whether \<open>io.Copy\<close> ended with nil or with an error; and a step of one
  direction changes neither the other direction nor whether \<open>exchange\<close> has returned. In
  server.go: when \<open>exchange\<close> has returned nil both directions have finished, when it has
  returned an error at least one direction has finished, and \<open>CloseWrite\<close> is never called.
\<close>

theorem exchange_join:
  "(step_p1\<^sup>*\<^sup>* start_p1 s \<longrightarrow>
      (returned s \<noteq> None \<longrightarrow> returned s = Some None \<and> up s = Finished \<and> down s = Finished)
      \<and> (up s = Finished \<longrightarrow> remoteCloseWrite s)
      \<and> (down s = Finished \<longrightarrow> clientCloseWrite s))
   \<and> (step_p1 s s' \<and> up s' \<noteq> up s \<longrightarrow> down s' = down s \<and> returned s' = returned s)
   \<and> (step_p1 s s' \<and> down s' \<noteq> down s \<longrightarrow> up s' = up s \<and> returned s' = returned s)
   \<and> (step_sg\<^sup>*\<^sup>* start_sg t \<longrightarrow>
      (returned t = Some None \<longrightarrow> up t = Finished \<and> down t = Finished)
      \<and> (\<forall>e. returned t = Some (Some e) \<longrightarrow> up t = Finished \<or> down t = Finished)
      \<and> \<not> remoteCloseWrite t \<and> \<not> clientCloseWrite t)"
proof (intro conjI impI)
  assume "step_p1\<^sup>*\<^sup>* start_p1 s"
  then have j: "joined_p1 s"
    by (rule joined_p1_reachable)
  then show "up s = Finished \<Longrightarrow> remoteCloseWrite s" "down s = Finished \<Longrightarrow> clientCloseWrite s"
    by (simp_all add: joined_p1_def)
  assume "returned s \<noteq> None"
  with j show "returned s = Some None" "up s = Finished" "down s = Finished"
    by (auto simp: joined_p1_def split: if_splits)
next
  assume "step_p1 s s' \<and> up s' \<noteq> up s"
  then show "down s' = down s" "returned s' = returned s"
    using step_p1_up_only by blast+
next
  assume "step_p1 s s' \<and> down s' \<noteq> down s"
  then show "up s' = up s" "returned s' = returned s"
    using step_p1_down_only by blast+
next
  assume "step_sg\<^sup>*\<^sup>* start_sg t"
  then have c: "counted_sg t"
    by (rule counted_sg_reachable)
  then show "\<not> remoteCloseWrite t" "\<not> clientCloseWrite t"
    by (simp_all add: counted_sg_def)
  from c show "\<forall>e. returned t = Some (Some e) \<longrightarrow> up t = Finished \<or> down t = Finished"
    by (auto simp: counted_sg_def split: if_splits)
  assume "returned t = Some None"
  with c show "up t = Finished" "down t = Finished"
    by (auto simp: counted_sg_def split: if_splits)
qed


theorem exchange_join_witness:
  "step_p1\<^sup>*\<^sup>* start_p1
     \<lparr>up = Finished, down = Finished, remoteCloseWrite = True, clientCloseWrite = True,
      returned = Some None, wg = 0\<rparr>
   \<and> returned \<lparr>up = Finished, down = Finished, remoteCloseWrite = True,
      clientCloseWrite = True, returned = Some None, wg = 0\<rparr> = Some None
   \<and> remoteCloseWrite \<lparr>up = Finished, down = Finished, remoteCloseWrite = True,
      clientCloseWrite = True, returned = Some None, wg = 0\<rparr>
   \<and> clientCloseWrite \<lparr>up = Finished, down = Finished, remoteCloseWrite = True,
      clientCloseWrite = True, returned = Some None, wg = 0\<rparr>
   \<and> step_p1 start_p1 (start_p1\<lparr>up := Copied (Some ''broken pipe'')\<rparr>)
   \<and> up (start_p1\<lparr>up := Copied (Some ''broken pipe'')\<rparr>) \<noteq> up start_p1
   \<and> down (start_p1\<lparr>up := Copied (Some ''broken pipe'')\<rparr>) = down start_p1
   \<and> returned (start_p1\<lparr>up := Copied (Some ''broken pipe'')\<rparr>) = returned start_p1
   \<and> step_sg\<^sup>*\<^sup>* start_sg
     \<lparr>up = Finished, down = Copying, remoteCloseWrite = False, clientCloseWrite = False,
      returned = Some (Some ''read: connection reset by peer''), errCh = [], rounds = 0\<rparr>
   \<and> (up \<lparr>up = Finished, down = Copying, remoteCloseWrite = False, clientCloseWrite = False,
      returned = Some (Some ''read: connection reset by peer''), errCh = [], rounds = 0\<rparr>
        = Finished
      \<or> down \<lparr>up = Finished, down = Copying, remoteCloseWrite = False,
      clientCloseWrite = False,
      returned = Some (Some ''read: connection reset by peer''), errCh = [], rounds = 0\<rparr>
        = Finished)"
proof -
  let ?s = "\<lparr>up = Finished, down = Finished, remoteCloseWrite = True, clientCloseWrite = True,
      returned = Some None, wg = 0\<rparr>"
  let ?s' = "start_p1\<lparr>up := Copied (Some ''broken pipe'')\<rparr>"
  let ?t = "\<lparr>up = Finished, down = Copying, remoteCloseWrite = False, clientCloseWrite = False,
      returned = Some (Some ''read: connection reset by peer''), errCh = [], rounds = 0\<rparr>"
  have st: "step_p1 start_p1 ?s'"
    by (rule up_copied) (simp add: start_p1_def)
  have ch: "up ?s' \<noteq> up start_p1"
    by (simp add: start_p1_def)
  have r: "returned ?t = Some (Some ''read: connection reset by peer'')"
    by simp
  note t = exchange_join [of start_p1 ?s' ?t]
  from t st ch have a: "down ?s' = down start_p1" "returned ?s' = returned start_p1"
    by blast+
  from t sg_error_run r have b: "up ?t = Finished \<or> down ?t = Finished"
    by blast
  have n: "returned ?s \<noteq> None"
    by simp
  from exchange_join [of ?s] p1_full_run n
  have c: "returned ?s = Some None" "remoteCloseWrite ?s" "clientCloseWrite ?s"
    by blast+
  from p1_full_run c st ch a sg_error_run b show ?thesis
    by blast
qed

end
